theory Spec2Isabelle
  imports Main "HOL-Library.Word"
begin

unbundle bit_operations_syntax

chapter \<open>libwebp: VP8 frame reconstruction and lossless histogram clustering\<close>

text \<open>
  A shallow embedding of the parts of \<^verbatim>\<open>src/dec/frame_dec.c\<close> (lossy frame
  reconstruction) and of the lossless encoder's histogram clustering
  (\<^verbatim>\<open>src/enc/histogram_enc.c\<close>) that the specification speaks about.

  Conventions. A C \<^verbatim>\<open>int\<close> is an \<^typ>\<open>int\<close>; the values that occur stay far
  inside the 32-bit range. A \<^verbatim>\<open>uint8_t\<close> or \<^verbatim>\<open>uint32_t\<close> is a word of
  that width. A fixed-size C array is a total function from the index.
\<close>

section \<open>Lossy decoder: \<^verbatim>\<open>src/dec/frame_dec.c\<close>\<close>

subsection \<open>Prediction-mode adjustment\<close>

text \<open>
  Modelled from the spec: the prediction-mode codes are enumerators of
  \<^verbatim>\<open>src/dec/common_dec.h\<close>, which is not among the sources. The spec names the DC
  mode and its three variants (no-top, no-left, no-top-left); the numbers are those of
  the VP8 decoder and only their being distinct matters below.
\<close>

definition B_DC_PRED :: int where "B_DC_PRED = 0"
definition B_DC_PRED_NOTOP :: int where "B_DC_PRED_NOTOP = 4"
definition B_DC_PRED_NOLEFT :: int where "B_DC_PRED_NOLEFT = 5"
definition B_DC_PRED_NOTOPLEFT :: int where "B_DC_PRED_NOTOPLEFT = 6"

definition CheckMode :: "int \<Rightarrow> int \<Rightarrow> int \<Rightarrow> int" where
  "CheckMode mb_x mb_y mode =
     (if mode = B_DC_PRED then
        (if mb_x = 0 then (if mb_y = 0 then B_DC_PRED_NOTOPLEFT else B_DC_PRED_NOLEFT)
         else (if mb_y = 0 then B_DC_PRED_NOTOP else B_DC_PRED))
      else mode)"

subsection \<open>Inverse-transform dispatch\<close>

text \<open>
  The transform kernels (\<^verbatim>\<open>VP8Transform\<close>, \<^verbatim>\<open>VP8TransformAC3\<close>, ...) belong to the
  dsp layer. What \<^verbatim>\<open>DoTransform\<close> and \<^verbatim>\<open>DoUVTransform\<close> decide is which kernel
  runs on the sub-block, if any: the model returns that kernel, \<open>None\<close> when none is
  called.
\<close>

datatype kernel =
  VP8Transform | VP8TransformAC3 | VP8TransformDC | VP8TransformUV | VP8TransformDCUV

definition DoTransform :: "32 word \<Rightarrow> kernel option" where
  "DoTransform bits =
     (let sel = drop_bit 30 bits in
      if sel = 3 then Some VP8Transform
      else if sel = 2 then Some VP8TransformAC3
      else if sel = 1 then Some VP8TransformDC
      else None)"

definition DoUVTransform :: "32 word \<Rightarrow> kernel option" where
  "DoUVTransform bits =
     (if bits AND 0xff \<noteq> 0 then
        (if bits AND 0xaa \<noteq> 0 then Some VP8TransformUV else Some VP8TransformDCUV)
      else None)"

text \<open>
  The loop \<^verbatim>\<open>for (n = 0; n < 16; ++n, bits <<= 2) DoTransform(bits, ...)\<close> of
  \<^verbatim>\<open>ReconstructRow\<close>, with the number of iterations left as first argument: the list
  of the kernels run on the sub-blocks, in scan order.
\<close>

fun transform_loop :: "nat \<Rightarrow> 32 word \<Rightarrow> kernel option list" where
  "transform_loop 0 bits = []"
| "transform_loop (Suc k) bits = DoTransform bits # transform_loop k (push_bit 2 bits)"

text \<open>
  The luma part of \<^verbatim>\<open>ReconstructRow\<close> for one macroblock: an intra-4x4 block runs the
  loop; a 16x16 block runs it only when \<^verbatim>\<open>bits != 0\<close>, otherwise no kernel is called
  on any of the sixteen sub-blocks.
\<close>

definition luma_transforms :: "bool \<Rightarrow> 32 word \<Rightarrow> kernel option list" where
  "luma_transforms is_i4x4 non_zero_y =
     (if is_i4x4 then transform_loop 16 non_zero_y
      else if non_zero_y \<noteq> 0 then transform_loop 16 non_zero_y
      else replicate 16 None)"

text \<open>The chroma part: \<^verbatim>\<open>DoUVTransform(bits_uv >> 0, ..)\<close> for U, \<^verbatim>\<open>(bits_uv >> 8, ..)\<close> for V.\<close>

definition chroma_transforms :: "32 word \<Rightarrow> kernel option \<times> kernel option" where
  "chroma_transforms non_zero_uv =
     (DoUVTransform (drop_bit 0 non_zero_uv), DoUVTransform (drop_bit 8 non_zero_uv))"

subsection \<open>Filter strengths\<close>

text \<open>The header structures of \<^verbatim>\<open>vp8i_dec.h\<close>.\<close>

record VP8FilterHeader =
  simple :: int
  level :: int
  sharpness :: int
  use_lf_delta :: int
  ref_lf_delta :: "nat \<Rightarrow> int"
  mode_lf_delta :: "nat \<Rightarrow> int"

record VP8SegmentHeader =
  use_segment :: int
  update_map :: int
  absolute_delta :: int
  quantizer :: "nat \<Rightarrow> int"
  filter_strength :: "nat \<Rightarrow> int"

record VP8FInfo =
  f_limit :: "8 word"
  f_ilevel :: "8 word"
  f_inner :: "8 word"
  hev_thresh :: "8 word"

text \<open>The fields of \<^verbatim>\<open>VP8Decoder\<close> that \<^verbatim>\<open>PrecomputeFilterStrengths\<close> reads or writes.\<close>

record VP8Decoder =
  filter_hdr :: VP8FilterHeader
  segment_hdr :: VP8SegmentHeader
  filter_type :: int
  fstrengths :: "nat \<Rightarrow> nat \<Rightarrow> VP8FInfo"

text \<open>
  Modelled from the spec: \<^verbatim>\<open>NUM_MB_SEGMENTS\<close> is a macro of
  \<^verbatim>\<open>src/dec/common_dec.h\<close>, which is not among the sources; the spec's glossary has
  a segment as one of four groups.
\<close>

definition NUM_MB_SEGMENTS :: nat where "NUM_MB_SEGMENTS = 4"

text \<open>The initial level of segment \<open>s\<close>: the first statement of the outer loop body.\<close>

definition base_level :: "VP8Decoder \<Rightarrow> nat \<Rightarrow> int" where
  "base_level dec s =
     (if use_segment (segment_hdr dec) \<noteq> 0 then
        (if absolute_delta (segment_hdr dec) = 0
         then filter_strength (segment_hdr dec) s + level (filter_hdr dec)
         else filter_strength (segment_hdr dec) s)
      else level (filter_hdr dec))"

text \<open>The level after the loop-filter deltas and the clamp to \<open>[0, 63]\<close>.\<close>

definition clamped_level :: "VP8FilterHeader \<Rightarrow> int \<Rightarrow> nat \<Rightarrow> int" where
  "clamped_level hdr base i4x4 =
     (let level0 = base;
          level1 = (if use_lf_delta hdr \<noteq> 0
                    then (let l = level0 + ref_lf_delta hdr 0
                          in if i4x4 \<noteq> 0 then l + mode_lf_delta hdr 0 else l)
                    else level0)
      in if level1 < 0 then 0 else if level1 > 63 then 63 else level1)"

text \<open>
  The body of the inner loop, on the record \<open>info\<close> found in \<open>fstrengths[s][i4x4]\<close>.
  A level of 0 writes \<open>f_limit\<close> only and leaves \<open>f_ilevel\<close> and \<open>hev_thresh\<close> as they
  were. The stores into the \<^verbatim>\<open>uint8_t\<close> fields truncate.
\<close>

definition strength_body :: "VP8FilterHeader \<Rightarrow> int \<Rightarrow> nat \<Rightarrow> VP8FInfo \<Rightarrow> VP8FInfo" where
  "strength_body hdr base i4x4 info =
     (let lvl = clamped_level hdr base i4x4;
          info1 =
            (if lvl > 0 then
               (let ilevel0 = lvl;
                    ilevel1 =
                      (if sharpness hdr > 0 then
                         (let t = (if sharpness hdr > 4 then drop_bit 2 ilevel0
                                   else drop_bit 1 ilevel0)
                          in if t > 9 - sharpness hdr then 9 - sharpness hdr else t)
                       else ilevel0);
                    ilevel = (if ilevel1 < 1 then 1 else ilevel1)
                in info\<lparr>f_ilevel := word_of_int ilevel,
                         f_limit := word_of_int (2 * lvl + ilevel),
                         hev_thresh := (if lvl \<ge> 40 then 2 else if lvl \<ge> 15 then 1 else 0)\<rparr>)
             else info\<lparr>f_limit := 0\<rparr>)
      in info1\<lparr>f_inner := word_of_int (int i4x4)\<rparr>)"

definition segment_body :: "nat \<Rightarrow> VP8Decoder \<Rightarrow> VP8Decoder" where
  "segment_body s dec =
     fold (\<lambda>i4x4 d.
             d\<lparr>fstrengths := (fstrengths d)
                  (s := (fstrengths d s)
                     (i4x4 := strength_body (filter_hdr d) (base_level dec s) i4x4
                                (fstrengths d s i4x4)))\<rparr>)
          [0, 1] dec"

definition PrecomputeFilterStrengths :: "VP8Decoder \<Rightarrow> VP8Decoder" where
  "PrecomputeFilterStrengths dec =
     (if filter_type dec > 0 then fold segment_body [0 ..< NUM_MB_SEGMENTS] dec else dec)"

text \<open>
  The filter strength as the specification words it (section 4.3, steps 1 to 3), for
  comparison with the code.
\<close>

definition spec_base :: "VP8Decoder \<Rightarrow> nat \<Rightarrow> int" where
  "spec_base dec s =
     (if use_segment (segment_hdr dec) \<noteq> 0
      then (if absolute_delta (segment_hdr dec) \<noteq> 0
            then filter_strength (segment_hdr dec) s
            else filter_strength (segment_hdr dec) s + level (filter_hdr dec))
      else level (filter_hdr dec))"

definition spec_level :: "VP8Decoder \<Rightarrow> nat \<Rightarrow> nat \<Rightarrow> int" where
  "spec_level dec s i4x4 =
     max 0 (min 63
       (spec_base dec s +
          (if use_lf_delta (filter_hdr dec) \<noteq> 0
           then ref_lf_delta (filter_hdr dec) 0 +
                  (if i4x4 \<noteq> 0 then mode_lf_delta (filter_hdr dec) 0 else 0)
           else 0)))"

definition spec_ilevel :: "int \<Rightarrow> int \<Rightarrow> int" where
  "spec_ilevel lvl sharp =
     min (if sharp > 0 then max 1 (drop_bit (if sharp > 4 then 2 else 1 :: nat) lvl) else lvl)
         (9 - sharp)"

definition spec_hev_thresh :: "int \<Rightarrow> int" where
  "spec_hev_thresh lvl = (if lvl \<ge> 40 then 2 else if lvl \<ge> 15 then 1 else 0)"

text \<open>
  The inner level that \<open>strength_body\<close> stores for a positive level: the cap
  \<open>9 - sharpness\<close> is applied only under \<^verbatim>\<open>sharpness > 0\<close>, the floor 1 last.
\<close>

definition code_ilevel :: "int \<Rightarrow> int \<Rightarrow> int" where
  "code_ilevel lvl sharp =
     (if sharp > 0
      then max 1 (min (drop_bit (if sharp > 4 then 2 else 1 :: nat) lvl) (9 - sharp))
      else max 1 lvl)"

text \<open>A decoder state to evaluate the precomputation on: level 20, no segments, no deltas.\<close>

definition dec_example :: "int \<Rightarrow> int \<Rightarrow> VP8Decoder" where
  "dec_example lvl sharp =
     \<lparr>filter_hdr = \<lparr>simple = 0, level = lvl, sharpness = sharp, use_lf_delta = 0,
                     ref_lf_delta = (\<lambda>_. 0), mode_lf_delta = (\<lambda>_. 0)\<rparr>,
      segment_hdr = \<lparr>use_segment = 0, update_map = 0, absolute_delta = 0,
                      quantizer = (\<lambda>_. 0), filter_strength = (\<lambda>_. 0)\<rparr>,
      filter_type = 2,
      fstrengths = (\<lambda>_ _. \<lparr>f_limit = 0, f_ilevel = 0, f_inner = 0, hev_thresh = 0\<rparr>)\<rparr>"

section \<open>Lossless encoder: histogram clustering (\<^verbatim>\<open>src/enc/histogram_enc.c\<close>)\<close>

subsection \<open>Machine arithmetic\<close>

text \<open>
  A \<^verbatim>\<open>uint64_t\<close> is an \<^typ>\<open>int\<close> in \<open>[0, 2^64)\<close> and an \<^verbatim>\<open>int64_t\<close> an
  \<^typ>\<open>int\<close> in \<open>[-2^63, 2^63)\<close>; \<open>u64\<close>, \<open>s64\<close> and \<open>u32\<close> are the conversions
  to these types, written wherever the C code computes in them.
\<close>

type_synonym u32 = "32 word"

definition u64 :: "int \<Rightarrow> int" where
  "u64 x = x mod 2 ^ 64"

definition s64 :: "int \<Rightarrow> int" where
  "s64 x = (x + 2 ^ 63) mod 2 ^ 64 - 2 ^ 63"

definition u32_of_int :: "int \<Rightarrow> int" where
  "u32_of_int x = x mod 2 ^ 32"

definition WEBP_INT64_MAX :: int where
  "WEBP_INT64_MAX = 2 ^ 63 - 1"

text \<open>C's division, which truncates towards zero.\<close>

definition c_div :: "int \<Rightarrow> int \<Rightarrow> int" where
  "c_div a b = sgn a * sgn b * (\<bar>a\<bar> div \<bar>b\<bar>)"

text \<open>
  Modelled from the spec: \<^verbatim>\<open>DivRound\<close> is an inline helper of a header that is not
  among the sources. The spec writes its result as \<open>round(...)\<close> (section 4.5): the
  quotient of two 64-bit signed integers rounded to the nearest integer, a half away
  from zero.
\<close>

definition DivRound :: "int \<Rightarrow> int \<Rightarrow> int" where
  "DivRound a b =
     (if (a < 0) = (b < 0) then c_div (a + c_div b 2) b else c_div (a - c_div b 2) b)"

subsection \<open>Constants of the lossless format\<close>

text \<open>
  Modelled from the spec: these macros belong to headers that are not among the
  sources (\<^verbatim>\<open>src/webp/format_constants.h\<close>, \<^verbatim>\<open>src/enc/histogram_enc.h\<close>,
  \<^verbatim>\<open>src/dsp/lossless_common.h\<close>). The spec's data model gives 256 entries to the red,
  blue and alpha tables and 40 to the distance table, and calls \<open>NON_TRIVIAL\<close> a
  reserved value: it is the all-ones word, the only value for which the test
  \<^verbatim>\<open>(alpha_sym | red_sym | blue_sym) == VP8L_NON_TRIVIAL_SYM\<close> finds a non-trivial
  component. The number of length codes, the number of code-length codes and the
  fixed-point precision are those of the WebP lossless encoder.
\<close>

definition NUM_LITERAL_CODES :: nat where "NUM_LITERAL_CODES = 256"
definition NUM_LENGTH_CODES :: nat where "NUM_LENGTH_CODES = 24"
definition NUM_DISTANCE_CODES :: nat where "NUM_DISTANCE_CODES = 40"
definition CODE_LENGTH_CODES :: nat where "CODE_LENGTH_CODES = 19"
definition LOG_2_PRECISION_BITS :: nat where "LOG_2_PRECISION_BITS = 23"
definition VP8L_NON_TRIVIAL_SYM :: u32 where "VP8L_NON_TRIVIAL_SYM = 0xffffffff"

text \<open>
  Modelled from the spec: \<^verbatim>\<open>VP8LHistogramNumCodes\<close> is an inline function of
  \<^verbatim>\<open>src/enc/histogram_enc.h\<close>. The literal table holds the literals, the
  length-prefix codes and, with a colour cache, one code per cache entry.
\<close>

definition VP8LHistogramNumCodes :: "int \<Rightarrow> nat" where
  "VP8LHistogramNumCodes palette_code_bits =
     NUM_LITERAL_CODES + NUM_LENGTH_CODES +
       (if palette_code_bits > 0 then 2 ^ nat palette_code_bits else 0)"

subsection \<open>Entropy statistics\<close>

text \<open>
  The two structures that the dsp layer fills for a symbol distribution
  (\<^verbatim>\<open>VP8LBitEntropy\<close> and \<^verbatim>\<open>VP8LStreaks\<close>, declared in \<^verbatim>\<open>src/dsp/lossless.h\<close>).
\<close>

record VP8LBitEntropy =
  entropy :: int
  sum_val :: u32
  nonzeros :: int
  max_val :: u32
  nonzero_code :: u32

record VP8LStreaks =
  counts :: "nat \<Rightarrow> int"
  streaks :: "nat \<Rightarrow> nat \<Rightarrow> int"

text \<open>
  The fixed-point Shannon entropy and the streak statistics of a distribution are
  computed by dsp kernels that are not among the sources (table-driven logarithms,
  SIMD variants). They are parameters of the model: everything below holds for every
  choice of these two functions.
\<close>

record dsp =
  shannon :: "u32 list \<Rightarrow> int"
  streaks_of :: "u32 list \<Rightarrow> VP8LStreaks"

text \<open>The indices of the symbols with a non-zero count, in increasing order.\<close>

definition nonzero_indices :: "u32 list \<Rightarrow> nat list" where
  "nonzero_indices X = filter (\<lambda>i. X ! i \<noteq> 0) [0 ..< length X]"

text \<open>
  Modelled from the spec: \<^verbatim>\<open>VP8LBitEntropyInit\<close>, \<^verbatim>\<open>VP8LGetEntropyUnrefined\<close> and
  \<^verbatim>\<open>VP8LGetCombinedEntropyUnrefined\<close> belong to the dsp layer
  (\<^verbatim>\<open>src/dsp/lossless_enc.c\<close>), which is not among the sources. By the spec the
  statistics of a distribution are its entropy, its sum, the number of its non-zero
  symbols (\<open>nonzeros\<close>), its largest count, and the non-zero symbol itself when there
  is exactly one (\<open>nonzero_code\<close>: the last non-zero index, the reserved value when
  there is none); the combined variant takes the statistics of the sum of two
  distributions.
\<close>

definition VP8LBitEntropyInit :: VP8LBitEntropy where
  "VP8LBitEntropyInit =
     \<lparr>entropy = 0, sum_val = 0, nonzeros = 0, max_val = 0,
      nonzero_code = VP8L_NON_TRIVIAL_SYM\<rparr>"

definition VP8LGetEntropyUnrefined :: "dsp \<Rightarrow> u32 list \<Rightarrow> VP8LBitEntropy \<times> VP8LStreaks" where
  "VP8LGetEntropyUnrefined d X =
     (\<lparr>entropy = u64 (shannon d X),
       sum_val = sum_list X,
       nonzeros = int (length (nonzero_indices X)),
       max_val = fold max X 0,
       nonzero_code = (if nonzero_indices X = [] then VP8L_NON_TRIVIAL_SYM
                       else word_of_nat (last (nonzero_indices X)))\<rparr>,
      streaks_of d X)"

definition VP8LGetCombinedEntropyUnrefined ::
  "dsp \<Rightarrow> u32 list \<Rightarrow> u32 list \<Rightarrow> VP8LBitEntropy \<times> VP8LStreaks" where
  "VP8LGetCombinedEntropyUnrefined d X Y = VP8LGetEntropyUnrefined d (map2 (+) X Y)"

subsection \<open>The cost model\<close>

definition BitsEntropyRefine :: "VP8LBitEntropy \<Rightarrow> int" where
  "BitsEntropyRefine e =
     (if nonzeros e < 5 \<and> nonzeros e \<le> 1 then 0
      else if nonzeros e < 5 \<and> nonzeros e = 2 then
        u64 (DivRound
               (s64 (u64 (99 * u64 (push_bit LOG_2_PRECISION_BITS (uint (sum_val e))) +
                            entropy e)))
               100)
      else
        (let mix = (if nonzeros e < 5 then (if nonzeros e = 3 then 950 else 700) else 627);
             min_limit0 =
               u64 (push_bit LOG_2_PRECISION_BITS (uint (2 * sum_val e - max_val e)));
             min_limit =
               u64 (DivRound (s64 (u64 (mix * min_limit0 + (1000 - mix) * entropy e))) 1000)
         in if entropy e < min_limit then min_limit else entropy e))"

definition InitialHuffmanCost :: int where
  "InitialHuffmanCost =
     u64 (push_bit LOG_2_PRECISION_BITS (int CODE_LENGTH_CODES * 3) -
          DivRound (push_bit LOG_2_PRECISION_BITS 91) 10)"

definition FinalHuffmanCost :: "VP8LStreaks \<Rightarrow> int" where
  "FinalHuffmanCost stats =
     (let retval = InitialHuffmanCost;
          extra0 = u32_of_int (counts stats 0 * 1600 + 240 * streaks stats 0 1);
          extra1 = u32_of_int (extra0 + (counts stats 1 * 2640 + 720 * streaks stats 1 1));
          extra2 = u32_of_int (extra1 + 1840 * streaks stats 0 0);
          extra3 = u32_of_int (extra2 + 3360 * streaks stats 1 0)
      in u64 (retval + u64 (push_bit (LOG_2_PRECISION_BITS - 10) extra3)))"

text \<open>
  \<^verbatim>\<open>PopulationCost\<close> returns the cost and writes through two pointers; the model
  returns the cost, the value for \<^verbatim>\<open>*trivial_sym\<close> (ignored by a caller that passes
  \<^verbatim>\<open>NULL\<close>) and the value for \<^verbatim>\<open>*is_used\<close>.
\<close>

definition PopulationCost :: "dsp \<Rightarrow> u32 list \<Rightarrow> nat \<Rightarrow> int \<times> u32 \<times> bool" where
  "PopulationCost d population len =
     (let (bit_entropy, stats) = VP8LGetEntropyUnrefined d (take len population);
          trivial_sym = (if nonzeros bit_entropy = 1 then nonzero_code bit_entropy
                         else VP8L_NON_TRIVIAL_SYM);
          used = (streaks stats 1 0 \<noteq> 0 \<or> streaks stats 1 1 \<noteq> 0)
      in (u64 (BitsEntropyRefine bit_entropy + FinalHuffmanCost stats), trivial_sym, used))"

subsection \<open>Histograms\<close>

text \<open>
  \<^verbatim>\<open>VP8LHistogram\<close> (\<^verbatim>\<open>src/enc/histogram_enc.h\<close>, the fields as the spec's data model
  lists them). The five count tables are lists; \<open>is_used\<close> has one flag per table, in
  the order literal, red, blue, alpha, distance.
\<close>

record VP8LHistogram =
  literal :: "u32 list"
  red :: "u32 list"
  blue :: "u32 list"
  alpha :: "u32 list"
  distance :: "u32 list"
  palette_code_bits :: int
  trivial_symbol :: u32
  bit_cost :: int
  literal_cost :: int
  red_cost :: int
  blue_cost :: int
  is_used :: "nat \<Rightarrow> bool"
  bin_id :: nat

definition UpdateHistogramCost :: "dsp \<Rightarrow> VP8LHistogram \<Rightarrow> VP8LHistogram" where
  "UpdateHistogramCost d h =
     (let (alpha_cost, alpha_sym, used3) = PopulationCost d (alpha h) NUM_LITERAL_CODES;
          (distance_cost, distance_sym, used4) =
             PopulationCost d (distance h) NUM_DISTANCE_CODES;
          num_codes = VP8LHistogramNumCodes (palette_code_bits h);
          (lit_cost, literal_sym, used0) = PopulationCost d (literal h) num_codes;
          (r_cost, red_sym, used1) = PopulationCost d (red h) NUM_LITERAL_CODES;
          (b_cost, blue_sym, used2) = PopulationCost d (blue h) NUM_LITERAL_CODES;
          h1 = h\<lparr>literal_cost := lit_cost, red_cost := r_cost, blue_cost := b_cost,
                 bit_cost := u64 (lit_cost + r_cost + b_cost + alpha_cost + distance_cost),
                 is_used := (\<lambda>i. if i = 0 then used0 else if i = 1 then used1
                                  else if i = 2 then used2 else if i = 3 then used3
                                  else if i = 4 then used4 else is_used h i)\<rparr>
      in if (alpha_sym OR red_sym OR blue_sym) = VP8L_NON_TRIVIAL_SYM
         then h1\<lparr>trivial_symbol := VP8L_NON_TRIVIAL_SYM\<rparr>
         else h1\<lparr>trivial_symbol :=
                   push_bit 24 alpha_sym OR push_bit 16 red_sym OR push_bit 0 blue_sym\<rparr>)"

text \<open>
  Modelled from the spec: \<^verbatim>\<open>VP8LHistogramAdd\<close> belongs to the dsp layer
  (\<^verbatim>\<open>src/dsp/lossless_enc.c\<close>), which is not among the sources. It stores in \<open>out\<close>
  the sum of the counts of \<open>a\<close> and \<open>b\<close>, table by table, and marks a table used when
  it is used in \<open>a\<close> or in \<open>b\<close>; the other fields of \<open>out\<close> keep their values.
\<close>

definition VP8LHistogramAdd ::
  "VP8LHistogram \<Rightarrow> VP8LHistogram \<Rightarrow> VP8LHistogram \<Rightarrow> VP8LHistogram" where
  "VP8LHistogramAdd a b out =
     out\<lparr>literal := map2 (+) (literal a) (literal b),
         red := map2 (+) (red a) (red b),
         blue := map2 (+) (blue a) (blue b),
         alpha := map2 (+) (alpha a) (alpha b),
         distance := map2 (+) (distance a) (distance b),
         is_used := (\<lambda>i. is_used a i \<or> is_used b i)\<rparr>"

text \<open>
  \<^verbatim>\<open>HistogramAdd(a, b, out)\<close>. The callers pass \<open>out = a\<close> or \<open>out = b\<close> too; the
  trivial symbols of \<open>a\<close> and \<open>b\<close> are read after \<^verbatim>\<open>VP8LHistogramAdd\<close>, which does not
  write that field, so they are the values on entry.
\<close>

definition HistogramAdd ::
  "VP8LHistogram \<Rightarrow> VP8LHistogram \<Rightarrow> VP8LHistogram \<Rightarrow> VP8LHistogram" where
  "HistogramAdd a b out =
     (VP8LHistogramAdd a b out)
       \<lparr>trivial_symbol := (if trivial_symbol a = trivial_symbol b then trivial_symbol a
                           else VP8L_NON_TRIVIAL_SYM)\<rparr>"

text \<open>
  Two values to evaluate the definitions on. \<open>dsp_example\<close> is a stand-in for the dsp
  kernels (no entropy, no streaks). \<open>pixel_histogram a r g b\<close> is the histogram of the
  single literal pixel with these components, without colour cache: what
  \<^verbatim>\<open>HistogramAddSinglePixOrCopy\<close> makes of a cleared histogram.
\<close>

definition dsp_example :: dsp where
  "dsp_example = \<lparr>shannon = (\<lambda>_. 0), streaks_of = (\<lambda>_. \<lparr>counts = (\<lambda>_. 0), streaks = (\<lambda>_ _. 0)\<rparr>)\<rparr>"

definition pixel_histogram :: "nat \<Rightarrow> nat \<Rightarrow> nat \<Rightarrow> nat \<Rightarrow> VP8LHistogram" where
  "pixel_histogram a r g b =
     \<lparr>literal = (replicate 280 0)[g := 1],
      red = (replicate 256 0)[r := 1],
      blue = (replicate 256 0)[b := 1],
      alpha = (replicate 256 0)[a := 1],
      distance = replicate 40 0,
      palette_code_bits = 0, trivial_symbol = 0, bit_cost = 0,
      literal_cost = 0, red_cost = 0, blue_cost = 0,
      is_used = (\<lambda>_. False), bin_id = 0\<rparr>"

text \<open>
  The same pixel followed by a backward reference (a copy of length 1 at distance 1):
  the length-prefix code and the distance code are counted too.
\<close>

definition pixel_and_copy_histogram :: VP8LHistogram where
  "pixel_and_copy_histogram =
     (pixel_histogram 255 0 5 0)
       \<lparr>literal := (replicate 280 0)[5 := 1, 256 := 1],
        distance := (replicate 40 0)[0 := 1]\<rparr>"

subsection \<open>The size under which the greedy clusterer runs\<close>

definition MAX_HISTO_GREEDY :: int where "MAX_HISTO_GREEDY = 100"

text \<open>
  The \<^verbatim>\<open>threshold_size\<close> of \<^verbatim>\<open>VP8LGetHistoImageSymbols\<close>, passed to the stochastic
  clusterer as \<^verbatim>\<open>min_cluster_size\<close>: the greedy clusterer runs when no more than this
  many histograms are left.
\<close>

definition threshold_size :: "int \<Rightarrow> int" where
  "threshold_size quality =
     1 + DivRound (quality * quality * quality * (MAX_HISTO_GREEDY - 1)) (100 * 100 * 100)"

subsection \<open>The cost of a combination\<close>

text \<open>
  \<^verbatim>\<open>GetCombinedEntropy\<close>: the cost of table \<open>index\<close> of the sum of two histograms.
\<close>

definition GetCombinedEntropy ::
  "dsp \<Rightarrow> VP8LHistogram \<Rightarrow> VP8LHistogram \<Rightarrow> nat \<Rightarrow> bool \<Rightarrow> int" where
  "GetCombinedEntropy d histo_X histo_Y index trivial_at_end =
     (let (X, Y, len) =
            (if index = 0
             then (literal histo_X, literal histo_Y,
                   VP8LHistogramNumCodes (palette_code_bits histo_X))
             else if index = 1 then (red histo_X, red histo_Y, NUM_LITERAL_CODES)
             else if index = 2 then (blue histo_X, blue histo_Y, NUM_LITERAL_CODES)
             else if index = 3 then (alpha histo_X, alpha histo_Y, NUM_LITERAL_CODES)
             else (distance histo_X, distance histo_Y, NUM_DISTANCE_CODES))
      in if trivial_at_end then
           FinalHuffmanCost
             \<lparr>counts = (\<lambda>i. if i = 0 then 1 else 0),
              streaks = (\<lambda>i j. if i = 1 \<and> j = 0 then 1
                               else if i = 0 \<and> j = 1 then int len - 1 else 0)\<rparr>
         else
           (let is_X_used = is_used histo_X index;
                is_Y_used = is_used histo_Y index;
                (bit_entropy, stats) =
                  (if is_X_used then
                     (if is_Y_used
                      then VP8LGetCombinedEntropyUnrefined d (take len X) (take len Y)
                      else VP8LGetEntropyUnrefined d (take len X))
                   else if is_Y_used then VP8LGetEntropyUnrefined d (take len Y)
                   else (VP8LBitEntropyInit,
                         \<lparr>counts = (\<lambda>i. if i = 0 then 1 else 0),
                          streaks = (\<lambda>i j. if i = 0 \<and> j = (if len > 3 then 1 else 0)
                                           then int len else 0)\<rparr>))
            in u64 (BitsEntropyRefine bit_entropy + FinalHuffmanCost stats)))"

text \<open>
  The loop \<^verbatim>\<open>for (i = 1; i <= 4; ++i)\<close> of \<^verbatim>\<open>GetCombinedHistogramEntropy\<close>, with the
  indices still to visit: \<open>None\<close> is the early bail-out (\<^verbatim>\<open>return 0\<close>).
\<close>

fun combined_loop ::
  "dsp \<Rightarrow> VP8LHistogram \<Rightarrow> VP8LHistogram \<Rightarrow> bool \<Rightarrow> int \<Rightarrow> nat list \<Rightarrow> int \<Rightarrow> int option" where
  "combined_loop d a b trivial_at_end cost_threshold [] cost = Some cost"
| "combined_loop d a b trivial_at_end cost_threshold (i # rest) cost =
     (let cost1 = u64 (cost +
                    GetCombinedEntropy d a b i (if i \<le> 3 then trivial_at_end else False))
      in if cost1 \<ge> cost_threshold then None
         else combined_loop d a b trivial_at_end cost_threshold rest cost1)"

text \<open>
  \<^verbatim>\<open>GetCombinedHistogramEntropy\<close>: \<open>Some cost\<close> when the function returns 1 with the cost
  in \<^verbatim>\<open>*cost\<close>, \<open>None\<close> when it returns 0 (the cost is then invalid).
\<close>

definition GetCombinedHistogramEntropy ::
  "dsp \<Rightarrow> VP8LHistogram \<Rightarrow> VP8LHistogram \<Rightarrow> int \<Rightarrow> int option" where
  "GetCombinedHistogramEntropy d a b cost_threshold_in =
     (let cost_threshold = u64 cost_threshold_in
      in if cost_threshold_in \<le> 0 then None
         else
           (let cost0 = GetCombinedEntropy d a b 0 False
            in if cost0 \<ge> cost_threshold then None
               else
                 (let trivial_at_end =
                        (trivial_symbol a \<noteq> VP8L_NON_TRIVIAL_SYM \<and>
                         trivial_symbol a = trivial_symbol b \<and>
                         (let color_a = drop_bit 24 (trivial_symbol a) AND 0xff;
                              color_r = drop_bit 16 (trivial_symbol a) AND 0xff;
                              color_b = drop_bit 0 (trivial_symbol a) AND 0xff
                          in (color_a = 0 \<or> color_a = 0xff) \<and>
                             (color_r = 0 \<or> color_r = 0xff) \<and>
                             (color_b = 0 \<or> color_b = 0xff)))
                  in combined_loop d a b trivial_at_end cost_threshold [1, 2, 3, 4] cost0)))"

text \<open>\<^verbatim>\<open>SaturateAdd(a, &b)\<close>: the new value of \<open>b\<close>.\<close>

definition SaturateAdd :: "int \<Rightarrow> int \<Rightarrow> int" where
  "SaturateAdd a b =
     (if b < 0 \<or> s64 a \<le> WEBP_INT64_MAX - b then s64 (b + s64 a) else WEBP_INT64_MAX)"

text \<open>
  \<^verbatim>\<open>HistogramAddEval\<close>: \<open>Some\<close> of the new content of \<open>out\<close> when it returns 1; \<open>None\<close>
  when it returns 0, and \<open>out\<close> is then untouched.
\<close>

definition HistogramAddEval ::
  "dsp \<Rightarrow> VP8LHistogram \<Rightarrow> VP8LHistogram \<Rightarrow> VP8LHistogram \<Rightarrow> int \<Rightarrow> VP8LHistogram option" where
  "HistogramAddEval d a b out cost_threshold =
     (let sum_cost = u64 (bit_cost a + bit_cost b);
          cost_threshold1 = SaturateAdd sum_cost cost_threshold
      in case GetCombinedHistogramEntropy d a b cost_threshold1 of
           None \<Rightarrow> None
         | Some cost \<Rightarrow>
             Some ((HistogramAdd a b out)
                     \<lparr>bit_cost := cost, palette_code_bits := palette_code_bits a\<rparr>))"


subsection \<open>Histogram sets\<close>

text \<open>
  \<^verbatim>\<open>VP8LHistogramSet\<close>: an array of pointers to histograms, \<open>None\<close> for the null
  pointer of a removed histogram, with the fields \<^verbatim>\<open>size\<close> and \<^verbatim>\<open>max_size\<close>.
  Dereferencing a null pointer or reading outside the array is undefined behaviour in
  C; a function of the model that would do so returns \<open>None\<close>.
\<close>

record VP8LHistogramSet =
  histograms :: "VP8LHistogram option list"
  set_size :: nat
  set_max_size :: nat

definition histo_at :: "VP8LHistogram option list \<Rightarrow> nat \<Rightarrow> VP8LHistogram option" where
  "histo_at hs i = (if i < length hs then hs ! i else None)"

text \<open>The loop of \<^verbatim>\<open>HistogramSetRemoveHistogram\<close> that shrinks \<^verbatim>\<open>size\<close>.\<close>

fun shrink_size :: "VP8LHistogram option list \<Rightarrow> nat \<Rightarrow> nat" where
  "shrink_size hs 0 = 0"
| "shrink_size hs (Suc n) = (if histo_at hs n = None then shrink_size hs n else Suc n)"

definition HistogramSetRemoveHistogram ::
  "VP8LHistogramSet \<Rightarrow> nat \<Rightarrow> int \<Rightarrow> VP8LHistogramSet \<times> int" where
  "HistogramSetRemoveHistogram s i num_used =
     (let hs = (histograms s)[i := None];
          s1 = s\<lparr>histograms := hs\<rparr>
      in (if Suc i = set_size s1 then s1\<lparr>set_size := shrink_size hs (set_size s1)\<rparr> else s1,
          num_used - 1))"


text \<open>A histogram after \<^verbatim>\<open>memset\<close> to 0, with its \<^verbatim>\<open>palette_code_bits\<close> set.\<close>

definition cleared_histogram :: "int \<Rightarrow> VP8LHistogram" where
  "cleared_histogram cache_bits =
     \<lparr>literal = replicate (VP8LHistogramNumCodes cache_bits) 0,
      red = replicate NUM_LITERAL_CODES 0,
      blue = replicate NUM_LITERAL_CODES 0,
      alpha = replicate NUM_LITERAL_CODES 0,
      distance = replicate NUM_DISTANCE_CODES 0,
      palette_code_bits = cache_bits, trivial_symbol = 0, bit_cost = 0,
      literal_cost = 0, red_cost = 0, blue_cost = 0,
      is_used = (\<lambda>_. False), bin_id = 0\<rparr>"


subsection \<open>The final remap\<close>






text \<open>
  The cost of the sum of two histograms as the specification speaks of it: the sum of
  the costs of the five tables, with no threshold and no early exit.
\<close>

definition trivial_at_end_of :: "VP8LHistogram \<Rightarrow> VP8LHistogram \<Rightarrow> bool" where
  "trivial_at_end_of a b =
     (trivial_symbol a \<noteq> VP8L_NON_TRIVIAL_SYM \<and> trivial_symbol a = trivial_symbol b \<and>
      (drop_bit 24 (trivial_symbol a) AND 0xff = 0 \<or>
       drop_bit 24 (trivial_symbol a) AND 0xff = 0xff) \<and>
      (drop_bit 16 (trivial_symbol a) AND 0xff = 0 \<or>
       drop_bit 16 (trivial_symbol a) AND 0xff = 0xff) \<and>
      (trivial_symbol a AND 0xff = 0 \<or> trivial_symbol a AND 0xff = 0xff))"

definition combined_cost :: "dsp \<Rightarrow> VP8LHistogram \<Rightarrow> VP8LHistogram \<Rightarrow> int" where
  "combined_cost d a b =
     GetCombinedEntropy d a b 0 False +
     GetCombinedEntropy d a b 1 (trivial_at_end_of a b) +
     GetCombinedEntropy d a b 2 (trivial_at_end_of a b) +
     GetCombinedEntropy d a b 3 (trivial_at_end_of a b) +
     GetCombinedEntropy d a b 4 False"





text \<open>
  A run of the final remap to evaluate: three tiles, the second one absent, and two
  clusters left in a set of three slots. No table of an example tile is flagged as
  used, so the cost of a combination is the cost of the streak statistics that
  \<^verbatim>\<open>GetCombinedEntropy\<close> builds itself, whatever the dsp kernels are. The clusters are
  copies of the tiles with the bit costs 50000000 and 0.
\<close>

definition example_tile :: "nat \<Rightarrow> nat \<Rightarrow> nat \<Rightarrow> nat \<Rightarrow> u32 \<Rightarrow> int \<Rightarrow> VP8LHistogram" where
  "example_tile a r g b tsym cost =
     (pixel_histogram a r g b)\<lparr>trivial_symbol := tsym, bit_cost := cost\<rparr>"



subsection \<open>The entropy-bin pre-pass\<close>

definition GetCombineCostFactor :: "int \<Rightarrow> int \<Rightarrow> int" where
  "GetCombineCostFactor histo_size quality =
     (let f0 = 16 in
      if quality < 90 then
        (let f1 = (if histo_size > 256 then c_div f0 2 else f0);
             f2 = (if histo_size > 512 then c_div f1 2 else f1);
             f3 = (if histo_size > 1024 then c_div f2 2 else f2);
             f4 = (if quality \<le> 50 then c_div f3 2 else f3)
         in f4)
      else f0)"

definition s16 :: "int \<Rightarrow> int" where
  "s16 x = (x + 2 ^ 15) mod 2 ^ 16 - 2 ^ 15"

definition histo_at_int :: "VP8LHistogram option list \<Rightarrow> int \<Rightarrow> VP8LHistogram option" where
  "histo_at_int hs i = (if 0 \<le> i then histo_at hs (nat i) else None)"

text \<open>
  The state of the loop of \<^verbatim>\<open>HistogramCombineEntropyBin\<close>: the set, \<^verbatim>\<open>*num_used\<close>,
  the histogram \<^verbatim>\<open>cur_combo\<close> points to, and the two fields of \<^verbatim>\<open>bin_info[]\<close>
  (\<^verbatim>\<open>first\<close>, an \<^verbatim>\<open>int16_t\<close>, and \<^verbatim>\<open>num_combine_failures\<close>, which never
  exceeds 32).
\<close>

record bin_state =
  eb_image_histo :: VP8LHistogramSet
  eb_num_used :: int
  eb_cur_combo :: VP8LHistogram
  eb_first :: "nat \<Rightarrow> int"
  eb_num_combine_failures :: "nat \<Rightarrow> nat"

text \<open>
  One iteration of the loop, for the tile \<open>idx\<close>. \<^verbatim>\<open>HistogramSwap\<close> exchanges the
  pointers \<^verbatim>\<open>cur_combo\<close> and \<^verbatim>\<open>histograms[first]\<close>. Only the entries of
  \<^verbatim>\<open>bin_info\<close> below \<open>num_bins\<close> are initialised.
\<close>

definition bin_step ::
  "dsp \<Rightarrow> nat \<Rightarrow> int \<Rightarrow> bool \<Rightarrow> nat \<Rightarrow> bin_state \<Rightarrow> bin_state option" where
  "bin_step d num_bins combine_cost_factor low_effort idx st =
     (let hs = histograms (eb_image_histo st) in
      case histo_at hs idx of
        None \<Rightarrow> None
      | Some h \<Rightarrow>
          if bin_id h \<ge> num_bins then None
          else
            (let first = eb_first st (bin_id h) in
             if first = - 1 then
               Some (st\<lparr>eb_first := (eb_first st)(bin_id h := s16 (int idx))\<rparr>)
             else
               (case histo_at_int hs first of
                  None \<Rightarrow> None
                | Some hf \<Rightarrow>
                    if low_effort then
                      (let s1 = (eb_image_histo st)
                                  \<lparr>histograms := hs[nat first := Some (HistogramAdd h hf hf)]\<rparr>;
                           (s2, n2) = HistogramSetRemoveHistogram s1 idx (eb_num_used st)
                       in Some (st\<lparr>eb_image_histo := s2, eb_num_used := n2\<rparr>))
                    else
                      (let bit_cost_thresh =
                             - DivRound (s64 (s64 (bit_cost h) * combine_cost_factor)) 100
                       in case HistogramAddEval d hf h (eb_cur_combo st) bit_cost_thresh of
                            None \<Rightarrow> Some st
                          | Some combo \<Rightarrow>
                              (let try_combine =
                                     (trivial_symbol combo \<noteq> VP8L_NON_TRIVIAL_SYM \<or>
                                      (trivial_symbol h = VP8L_NON_TRIVIAL_SYM \<and>
                                       trivial_symbol hf = VP8L_NON_TRIVIAL_SYM));
                                   max_combine_failures = 32
                               in if try_combine \<or>
                                     eb_num_combine_failures st (bin_id h)
                                       \<ge> max_combine_failures
                                  then
                                    (let s1 = (eb_image_histo st)
                                                \<lparr>histograms := hs[nat first := Some combo]\<rparr>;
                                         (s2, n2) =
                                            HistogramSetRemoveHistogram s1 idx (eb_num_used st)
                                     in Some (st\<lparr>eb_image_histo := s2, eb_num_used := n2,
                                                 eb_cur_combo := hf\<rparr>))
                                  else
                                    Some (st\<lparr>eb_cur_combo := combo,
                                            eb_num_combine_failures :=
                                              (eb_num_combine_failures st)
                                                (bin_id h :=
                                                   Suc (eb_num_combine_failures st
                                                          (bin_id h)))\<rparr>))))))"

lemma shrink_size_le: "shrink_size hs n \<le> n"
  by (induction n) simp_all

lemma set_size_HistogramSetRemoveHistogram:
  "set_size (fst (HistogramSetRemoveHistogram s i n)) \<le> set_size s"
  by (simp add: HistogramSetRemoveHistogram_def Let_def shrink_size_le)

lemma set_size_bin_step:
  assumes "bin_step d num_bins f low_effort idx st = Some st1"
  shows "set_size (eb_image_histo st1) \<le> set_size (eb_image_histo st)"
proof -
  have r: "set_size (fst (HistogramSetRemoveHistogram
                       ((eb_image_histo st)\<lparr>histograms := hs\<rparr>) idx n))
             \<le> set_size (eb_image_histo st)" for hs n
    using set_size_HistogramSetRemoveHistogram
      [of "(eb_image_histo st)\<lparr>histograms := hs\<rparr>" idx n]
    by simp
  from assms show ?thesis
    by (auto simp add: bin_step_def Let_def split_beta r
        split: option.splits if_splits)
qed

text \<open>The loop \<^verbatim>\<open>for (idx = 0; idx < image_histo->size; ++idx)\<close>.\<close>

function bin_loop ::
  "dsp \<Rightarrow> nat \<Rightarrow> int \<Rightarrow> bool \<Rightarrow> nat \<Rightarrow> bin_state \<Rightarrow> bin_state option" where
  "bin_loop d num_bins f low_effort idx st =
     (if idx < set_size (eb_image_histo st) then
        (case bin_step d num_bins f low_effort idx st of
           None \<Rightarrow> None
         | Some st1 \<Rightarrow> bin_loop d num_bins f low_effort (Suc idx) st1)
      else Some st)"
  by pat_completeness auto
termination
proof (relation "measure (\<lambda>(d, num_bins, f, low_effort, idx, st).
                   set_size (eb_image_histo st) - idx)")
  show "wf (measure (\<lambda>(d, num_bins, f, low_effort, idx, st).
                   set_size (eb_image_histo st) - idx))"
    by simp
next
  fix d :: dsp and num_bins f low_effort idx and st st1 :: bin_state
  assume "idx < set_size (eb_image_histo st)"
    and "bin_step d num_bins f low_effort idx st = Some st1"
  then show "((d, num_bins, f, low_effort, Suc idx, st1), (d, num_bins, f, low_effort, idx, st))
               \<in> measure (\<lambda>(d, num_bins, f, low_effort, idx, st).
                   set_size (eb_image_histo st) - idx)"
    using set_size_bin_step [of d num_bins f low_effort idx st st1] by simp
qed

declare bin_loop.simps [simp del]

text \<open>
  \<^verbatim>\<open>HistogramCombineEntropyBin\<close>: the set, \<^verbatim>\<open>*num_used\<close> and \<^verbatim>\<open>cur_combo\<close> on
  return. In low-effort mode the costs of the histograms left are computed at the end.
\<close>

definition HistogramCombineEntropyBin ::
  "dsp \<Rightarrow> VP8LHistogramSet \<Rightarrow> int \<Rightarrow> VP8LHistogram \<Rightarrow> nat \<Rightarrow> int \<Rightarrow> bool \<Rightarrow>
     (VP8LHistogramSet \<times> int \<times> VP8LHistogram) option" where
  "HistogramCombineEntropyBin d image_histo num_used cur_combo num_bins combine_cost_factor
       low_effort =
     (case bin_loop d num_bins combine_cost_factor low_effort 0
             \<lparr>eb_image_histo = image_histo, eb_num_used = num_used,
              eb_cur_combo = cur_combo, eb_first = (\<lambda>_. - 1),
              eb_num_combine_failures = (\<lambda>_. 0)\<rparr> of
        None \<Rightarrow> None
      | Some st \<Rightarrow>
          (let s = eb_image_histo st;
               s1 = (if low_effort
                     then s\<lparr>histograms :=
                             map2 (\<lambda>idx x. if idx < set_size s
                                            then map_option (UpdateHistogramCost d) x else x)
                                  [0 ..< length (histograms s)] (histograms s)\<rparr>
                     else s)
           in Some (s1, eb_num_used st, eb_cur_combo st)))"

text \<open>The set of \<open>n\<close> copies of one tile.\<close>

definition tiles_of :: "nat \<Rightarrow> VP8LHistogram \<Rightarrow> VP8LHistogramSet" where
  "tiles_of n h = \<lparr>histograms = replicate n (Some h), set_size = n, set_max_size = n\<rparr>"

text \<open>What is left of a set: its size and the number of live histograms.\<close>

definition live_count :: "VP8LHistogramSet \<Rightarrow> nat \<times> nat" where
  "live_count s = (set_size s, length (filter (\<lambda>x. x \<noteq> None) (histograms s)))"

text \<open>
  The state of the loop once tile 0 has become the first tile of bin 0.
\<close>

definition bin_state_after_first :: "VP8LHistogramSet \<Rightarrow> int \<Rightarrow> bin_state" where
  "bin_state_after_first s n =
     \<lparr>eb_image_histo = s, eb_num_used = n, eb_cur_combo = cleared_histogram 0,
      eb_first = (\<lambda>_. - 1)(0 := 0), eb_num_combine_failures = (\<lambda>_. 0)\<rparr>"

subsection \<open>The priority queue of histogram pairs\<close>

record HistogramPair =
  idx1 :: int
  idx2 :: int
  cost_diff :: int
  cost_combo :: int

text \<open>
  \<^verbatim>\<open>HistoQueue\<close>: \<open>queue\<close> holds the first \<^verbatim>\<open>size\<close> entries of the array, so that
  \<^verbatim>\<open>size\<close> is its length. The array has \<^verbatim>\<open>max_size + 1\<close> entries; the allocation is
  taken to succeed.
\<close>

record HistoQueue =
  queue :: "HistogramPair list"
  max_size :: int

definition HistoQueueInit :: "int \<Rightarrow> HistoQueue" where
  "HistoQueueInit n = \<lparr>queue = [], max_size = n\<rparr>"

text \<open>
  \<^verbatim>\<open>HistoQueuePopPair\<close> and \<^verbatim>\<open>HistoQueueUpdateHead\<close> on the pair at position \<open>k\<close>;
  the callers pass \<open>k < size\<close>, which the source asserts.
\<close>

definition HistoQueuePopPair :: "HistoQueue \<Rightarrow> nat \<Rightarrow> HistoQueue" where
  "HistoQueuePopPair hq k = hq\<lparr>queue := butlast ((queue hq)[k := last (queue hq)])\<rparr>"

definition HistoQueueUpdateHead :: "HistoQueue \<Rightarrow> nat \<Rightarrow> HistoQueue" where
  "HistoQueueUpdateHead hq k =
     (let q = queue hq
      in if cost_diff (q ! k) < cost_diff (q ! 0) then hq\<lparr>queue := q[0 := q ! k, k := q ! 0]\<rparr>
         else hq)"

text \<open>
  \<^verbatim>\<open>HistoQueueUpdatePair\<close>: \<open>Some\<close> of the updated pair when it returns 1, \<open>None\<close> when
  it returns 0 (the costs of the pair are then invalid).
\<close>

definition HistoQueueUpdatePair ::
  "dsp \<Rightarrow> VP8LHistogram \<Rightarrow> VP8LHistogram \<Rightarrow> int \<Rightarrow> HistogramPair \<Rightarrow> HistogramPair option" where
  "HistoQueueUpdatePair d h1 h2 cost_threshold pair =
     (let sum_cost = s64 (u64 (bit_cost h1 + bit_cost h2));
          cost_threshold1 = SaturateAdd (u64 sum_cost) cost_threshold
      in case GetCombinedHistogramEntropy d h1 h2 cost_threshold1 of
           None \<Rightarrow> None
         | Some c \<Rightarrow> Some (pair\<lparr>cost_combo := c, cost_diff := s64 (s64 c - sum_cost)\<rparr>))"

text \<open>
  \<^verbatim>\<open>HistoQueuePush\<close>: the queue and the value returned; \<open>None\<close> when one of the two
  histograms read is a null pointer or lies outside the array.
\<close>

definition HistoQueuePush ::
  "dsp \<Rightarrow> HistoQueue \<Rightarrow> VP8LHistogram option list \<Rightarrow> int \<Rightarrow> int \<Rightarrow> int \<Rightarrow>
     (HistoQueue \<times> int) option" where
  "HistoQueuePush d hq hs i1 i2 threshold =
     (if int (length (queue hq)) = max_size hq then Some (hq, 0)
      else
        (let (j1, j2) = (if i1 > i2 then (i2, i1) else (i1, i2))
         in case (histo_at_int hs j1, histo_at_int hs j2) of
              (Some h1, Some h2) \<Rightarrow>
                (case HistoQueueUpdatePair d h1 h2 threshold
                        \<lparr>idx1 = j1, idx2 = j2, cost_diff = 0, cost_combo = 0\<rparr> of
                   None \<Rightarrow> Some (hq, 0)
                 | Some pair \<Rightarrow>
                     Some (HistoQueueUpdateHead (hq\<lparr>queue := queue hq @ [pair]\<rparr>)
                             (length (queue hq)),
                           cost_diff pair))
            | _ \<Rightarrow> None))"

text \<open>
  The merge of the head pair, in both clusterers: the histogram at \<open>b2\<close> is added to
  the one at \<open>b1\<close>, which takes the cost of the pair, and is removed from the set.
\<close>

definition merge_pair ::
  "VP8LHistogramSet \<Rightarrow> int \<Rightarrow> HistogramPair \<Rightarrow> (VP8LHistogramSet \<times> int) option" where
  "merge_pair image_histo num_used head =
     (let hs = histograms image_histo
      in case (histo_at_int hs (idx1 head), histo_at_int hs (idx2 head)) of
           (Some h1, Some h2) \<Rightarrow>
             Some (HistogramSetRemoveHistogram
                     (image_histo\<lparr>histograms :=
                        hs[nat (idx1 head) :=
                             Some ((HistogramAdd h2 h1 h1)\<lparr>bit_cost := cost_combo head\<rparr>)]\<rparr>)
                     (nat (idx2 head)) num_used)
         | _ \<Rightarrow> None)"

text \<open>
  A run of a clusterer is a sequence of steps from one program point to the next;
  \<open>steps f k c\<close> is the state after \<open>k\<close> steps from \<open>c\<close>, \<open>None\<close> if one of them
  has undefined behaviour.
\<close>

fun steps :: "('s \<Rightarrow> 's option) \<Rightarrow> nat \<Rightarrow> 's \<Rightarrow> 's option" where
  "steps f 0 c = Some c"
| "steps f (Suc k) c = (case f c of None \<Rightarrow> None | Some c1 \<Rightarrow> steps f k c1)"

subsection \<open>The greedy clusterer\<close>

text \<open>
  The program points of \<^verbatim>\<open>HistogramCombineGreedy\<close>: the heads of the two loops that
  fill the queue, the head of the \<^verbatim>\<open>while\<close> loop, the heads of the loop that removes
  the pairs of the merged histograms and of the loop that pushes the new pairs, and
  the return.
\<close>

datatype greedy_point = G_fill_i | G_fill_j | G_while | G_remove | G_push | G_return

record greedy_state =
  g_image_histo :: VP8LHistogramSet
  g_num_used :: int
  g_histo_queue :: HistoQueue
  g_image_histo_size :: nat
  g_i :: nat
  g_j :: nat
  g_idx1 :: int
  g_idx2 :: int
  g_at :: greedy_point

text \<open>
  The state on entry; \<open>None\<close> if \<^verbatim>\<open>size\<close> exceeds the length of the array.
\<close>

definition greedy_init :: "VP8LHistogramSet \<Rightarrow> int \<Rightarrow> greedy_state option" where
  "greedy_init image_histo num_used =
     (if set_size image_histo > length (histograms image_histo) then None
      else Some \<lparr>g_image_histo = image_histo, g_num_used = num_used,
                 g_histo_queue =
                   HistoQueueInit (int (set_size image_histo) * int (set_size image_histo)),
                 g_image_histo_size = set_size image_histo,
                 g_i = 0, g_j = 0, g_idx1 = 0, g_idx2 = 0, g_at = G_fill_i\<rparr>)"

definition greedy_step :: "dsp \<Rightarrow> greedy_state \<Rightarrow> greedy_state option" where
  "greedy_step d c =
     (let hs = histograms (g_image_histo c); hq = g_histo_queue c; i = g_i c; j = g_j c
      in case g_at c of
           G_fill_i \<Rightarrow>
             (if i < g_image_histo_size c then
                (if histo_at hs i = None then Some (c\<lparr>g_i := i + 1\<rparr>)
                 else Some (c\<lparr>g_j := i + 1, g_at := G_fill_j\<rparr>))
              else Some (c\<lparr>g_at := G_while\<rparr>))
         | G_fill_j \<Rightarrow>
             (if j < g_image_histo_size c then
                (if histo_at hs j = None then Some (c\<lparr>g_j := j + 1\<rparr>)
                 else
                   (case HistoQueuePush d hq hs (int i) (int j) 0 of
                      None \<Rightarrow> None
                    | Some (hq1, cost) \<Rightarrow> Some (c\<lparr>g_histo_queue := hq1, g_j := j + 1\<rparr>)))
              else Some (c\<lparr>g_i := i + 1, g_at := G_fill_i\<rparr>))
         | G_while \<Rightarrow>
             (if length (queue hq) > 0 then
                (let head = queue hq ! 0
                 in case merge_pair (g_image_histo c) (g_num_used c) head of
                      None \<Rightarrow> None
                    | Some (image1, n1) \<Rightarrow>
                        Some (c\<lparr>g_image_histo := image1, g_num_used := n1,
                                g_idx1 := idx1 head, g_idx2 := idx2 head,
                                g_i := 0, g_at := G_remove\<rparr>))
              else Some (c\<lparr>g_at := G_return\<rparr>))
         | G_remove \<Rightarrow>
             (if i < length (queue hq) then
                (let p = queue hq ! i
                 in if idx1 p = g_idx1 c \<or> idx2 p = g_idx1 c \<or>
                       idx1 p = g_idx2 c \<or> idx2 p = g_idx2 c
                    then Some (c\<lparr>g_histo_queue := HistoQueuePopPair hq i\<rparr>)
                    else Some (c\<lparr>g_histo_queue := HistoQueueUpdateHead hq i, g_i := i + 1\<rparr>))
              else Some (c\<lparr>g_i := 0, g_at := G_push\<rparr>))
         | G_push \<Rightarrow>
             (if i < set_size (g_image_histo c) then
                (if int i = g_idx1 c \<or> histo_at hs i = None then Some (c\<lparr>g_i := i + 1\<rparr>)
                 else
                   (case HistoQueuePush d hq hs (g_idx1 c) (int i) 0 of
                      None \<Rightarrow> None
                    | Some (hq1, cost) \<Rightarrow> Some (c\<lparr>g_histo_queue := hq1, g_i := i + 1\<rparr>)))
              else Some (c\<lparr>g_at := G_while\<rparr>))
         | G_return \<Rightarrow> Some c)"

subsection \<open>The stochastic clusterer\<close>

text \<open>
  \<^verbatim>\<open>MyRand\<close>: the new seed, which is the value returned. The product is computed in
  64 bits and does not wrap.
\<close>

definition MyRand :: "int \<Rightarrow> int" where
  "MyRand seed = (seed * 48271) mod 2147483647"

text \<open>
  \<^verbatim>\<open>bsearch\<close> for \<open>key\<close> in \<open>xs\<close>: the position of \<open>key\<close> if it occurs. The array is
  increasing, as \<^verbatim>\<open>bsearch\<close> requires, in every state of a run (this is proved below).
\<close>

fun position_of :: "nat \<Rightarrow> nat list \<Rightarrow> nat option" where
  "position_of key [] = None"
| "position_of key (x # xs) = (if x = key then Some 0 else map_option Suc (position_of key xs))"

text \<open>
  The program points of \<^verbatim>\<open>HistogramCombineStochastic\<close>: the test of the outer
  \<^verbatim>\<open>for\<close> loop, the head of the loop that picks random samples, the statement after
  it, the head of the loop that updates the queue after a merge, and the return.
\<close>

datatype stochastic_point = S_for | S_sample | S_merge | S_update | S_return

text \<open>
  \<open>s_mappings\<close> holds the first \<^verbatim>\<open>*num_used\<close> entries of \<^verbatim>\<open>mappings\<close>.
\<close>

record stochastic_state =
  s_image_histo :: VP8LHistogramSet
  s_num_used :: int
  s_histo_queue :: HistoQueue
  s_mappings :: "nat list"
  s_seed :: int
  s_tries_with_no_success :: int
  s_outer_iters :: int
  s_iter :: int
  s_best_cost :: int
  s_best_idx1 :: int
  s_best_idx2 :: int
  s_j :: nat
  s_do_greedy :: bool
  s_at :: stochastic_point

text \<open>
  The state at the first test of the outer loop, or at the return when there are
  fewer than \<open>min_cluster_size\<close> histograms. \<open>None\<close> if \<^verbatim>\<open>size\<close> exceeds the length of
  the array or \<^verbatim>\<open>*num_used\<close> is not the number of histograms of the set: the loop
  that fills \<^verbatim>\<open>mappings\<close> would write outside the array or leave entries undefined.
\<close>

definition stochastic_init :: "VP8LHistogramSet \<Rightarrow> int \<Rightarrow> int \<Rightarrow> stochastic_state option" where
  "stochastic_init image_histo num_used min_cluster_size =
     (let live = filter (\<lambda>i. histo_at (histograms image_histo) i \<noteq> None)
                   [0 ..< set_size image_histo];
          c = \<lparr>s_image_histo = image_histo, s_num_used = num_used,
               s_histo_queue = HistoQueueInit 9, s_mappings = live, s_seed = 1,
               s_tries_with_no_success = 0, s_outer_iters = num_used, s_iter = 0,
               s_best_cost = 0, s_best_idx1 = - 1, s_best_idx2 = 1, s_j = 0,
               s_do_greedy = False, s_at = S_for\<rparr>
      in if num_used < min_cluster_size
         then Some (c\<lparr>s_mappings := [], s_do_greedy := True, s_at := S_return\<rparr>)
         else if set_size image_histo > length (histograms image_histo) \<or>
                 int (length live) \<noteq> num_used then None
         else Some c)"

definition stochastic_step :: "dsp \<Rightarrow> int \<Rightarrow> stochastic_state \<Rightarrow> stochastic_state option" where
  "stochastic_step d min_cluster_size c =
     (let hs = histograms (s_image_histo c); hq = s_histo_queue c; n = s_num_used c;
          j = s_j c
      in case s_at c of
           S_for \<Rightarrow>
             (if s_iter c < s_outer_iters c \<and> n \<ge> min_cluster_size then
                (let c1 = c\<lparr>s_tries_with_no_success := s_tries_with_no_success c + 1\<rparr>
                 in if s_tries_with_no_success c1 < c_div (s_outer_iters c) 2
                    then Some (c1\<lparr>s_best_cost :=
                                     (if length (queue hq) = 0 then 0
                                      else cost_diff (queue hq ! 0)),
                                   s_best_idx1 := - 1, s_best_idx2 := 1, s_j := 0,
                                   s_at := S_sample\<rparr>)
                    else Some (c1\<lparr>s_do_greedy := (n \<le> min_cluster_size), s_at := S_return\<rparr>))
              else Some (c\<lparr>s_do_greedy := (n \<le> min_cluster_size), s_at := S_return\<rparr>))
         | S_sample \<Rightarrow>
             (if n \<ge> 2 \<and> int j < c_div n 2 then
                (let rand_range = u32_of_int ((n - 1) * n);
                     seed1 = MyRand (s_seed c)
                 in if rand_range = 0 then None
                    else
                      (let tmp = seed1 mod rand_range;
                           pos1 = nat (tmp div (n - 1));
                           pos2 = nat (tmp mod (n - 1));
                           pos2 = (if pos2 \<ge> pos1 then pos2 + 1 else pos2)
                       in if pos1 < length (s_mappings c) \<and> pos2 < length (s_mappings c) then
                            (case HistoQueuePush d hq hs (int (s_mappings c ! pos1))
                                    (int (s_mappings c ! pos2)) (s_best_cost c) of
                               None \<Rightarrow> None
                             | Some (hq1, curr_cost) \<Rightarrow>
                                 (let c1 = c\<lparr>s_histo_queue := hq1, s_seed := seed1\<rparr>
                                  in if curr_cost < 0 then
                                       (if int (length (queue hq1)) = max_size hq1
                                        then Some (c1\<lparr>s_best_cost := curr_cost,
                                                      s_at := S_merge\<rparr>)
                                        else Some (c1\<lparr>s_best_cost := curr_cost,
                                                      s_j := j + 1\<rparr>))
                                     else Some (c1\<lparr>s_j := j + 1\<rparr>)))
                          else None))
              else Some (c\<lparr>s_at := S_merge\<rparr>))
         | S_merge \<Rightarrow>
             (if length (queue hq) = 0 then Some (c\<lparr>s_iter := s_iter c + 1, s_at := S_for\<rparr>)
              else
                (let head = queue hq ! 0
                 in if idx2 head < 0 then None
                    else
                      (case position_of (nat (idx2 head)) (s_mappings c) of
                         None \<Rightarrow> None
                       | Some m \<Rightarrow>
                           (case merge_pair (s_image_histo c) n head of
                              None \<Rightarrow> None
                            | Some (image1, n1) \<Rightarrow>
                                Some (c\<lparr>s_image_histo := image1, s_num_used := n1,
                                        s_mappings :=
                                          take m (s_mappings c) @ drop (Suc m) (s_mappings c),
                                        s_best_idx1 := idx1 head, s_best_idx2 := idx2 head,
                                        s_j := 0, s_at := S_update\<rparr>)))))
         | S_update \<Rightarrow>
             (if j < length (queue hq) then
                (let p = queue hq ! j;
                     is_idx1_best = (idx1 p = s_best_idx1 c \<or> idx1 p = s_best_idx2 c);
                     is_idx2_best = (idx2 p = s_best_idx1 c \<or> idx2 p = s_best_idx2 c)
                 in if is_idx1_best \<and> is_idx2_best
                    then Some (c\<lparr>s_histo_queue := HistoQueuePopPair hq j\<rparr>)
                    else
                      (let p1 = (if is_idx1_best then p\<lparr>idx1 := s_best_idx1 c\<rparr>
                                 else if is_idx2_best then p\<lparr>idx2 := s_best_idx1 c\<rparr>
                                 else p);
                           do_eval = (is_idx1_best \<or> is_idx2_best);
                           p2 = (if idx1 p1 > idx2 p1 then p1\<lparr>idx1 := idx2 p1, idx2 := idx1 p1\<rparr>
                                 else p1)
                       in if do_eval then
                            (case (histo_at_int hs (idx1 p2), histo_at_int hs (idx2 p2)) of
                               (Some h1, Some h2) \<Rightarrow>
                                 (case HistoQueueUpdatePair d h1 h2 0 p2 of
                                    None \<Rightarrow>
                                      Some (c\<lparr>s_histo_queue :=
                                                HistoQueuePopPair
                                                  (hq\<lparr>queue := (queue hq)[j := p2]\<rparr>) j\<rparr>)
                                  | Some p3 \<Rightarrow>
                                      Some (c\<lparr>s_histo_queue :=
                                                HistoQueueUpdateHead
                                                  (hq\<lparr>queue := (queue hq)[j := p3]\<rparr>) j,
                                              s_j := j + 1\<rparr>))
                             | _ \<Rightarrow> None)
                          else Some (c\<lparr>s_histo_queue :=
                                          HistoQueueUpdateHead
                                            (hq\<lparr>queue := (queue hq)[j := p2]\<rparr>) j,
                                        s_j := j + 1\<rparr>)))
              else Some (c\<lparr>s_tries_with_no_success := 0, s_iter := s_iter c + 1,
                            s_at := S_for\<rparr>))
         | S_return \<Rightarrow> Some c)"

text \<open>Every pair of the queue has its smaller index first.\<close>

definition queue_ordered :: "HistoQueue \<Rightarrow> bool" where
  "queue_ordered hq = (\<forall>p \<in> set (queue hq). idx1 p < idx2 p)"

text \<open>The index pairs of a queue, and a set of tiles with the given costs.\<close>

definition pairs_of :: "HistoQueue \<Rightarrow> (int \<times> int) list" where
  "pairs_of hq = map (\<lambda>p. (idx1 p, idx2 p)) (queue hq)"

definition tiles_with_costs :: "int list \<Rightarrow> VP8LHistogramSet" where
  "tiles_with_costs cs =
     \<lparr>histograms = map (\<lambda>c. Some (example_tile 255 0 5 0 0xff000000 c)) cs,
      set_size = length cs, set_max_size = length cs\<rparr>"


section \<open>Properties of the lossy decoder\<close>

subsection \<open>Mode adjustment\<close>

text \<open>
  Claim C6. For every macroblock position and every prediction mode, \<^verbatim>\<open>CheckMode\<close>
  returns the mode unchanged unless it is the DC mode; the DC mode becomes no-top-left
  at \<open>mb_x = 0, mb_y = 0\<close>, no-left at \<open>mb_x = 0, mb_y > 0\<close>, no-top at
  \<open>mb_x > 0, mb_y = 0\<close>, and stays the default DC mode when both neighbours exist.
\<close>

theorem CheckMode_spec:
  "(mode \<noteq> B_DC_PRED \<longrightarrow> CheckMode mb_x mb_y mode = mode) \<and>
   (mb_x = 0 \<and> mb_y = 0 \<longrightarrow> CheckMode mb_x mb_y B_DC_PRED = B_DC_PRED_NOTOPLEFT) \<and>
   (mb_x = 0 \<and> mb_y > 0 \<longrightarrow> CheckMode mb_x mb_y B_DC_PRED = B_DC_PRED_NOLEFT) \<and>
   (mb_x > 0 \<and> mb_y = 0 \<longrightarrow> CheckMode mb_x mb_y B_DC_PRED = B_DC_PRED_NOTOP) \<and>
   (mb_x > 0 \<and> mb_y > 0 \<longrightarrow> CheckMode mb_x mb_y B_DC_PRED = B_DC_PRED)"
  by (simp add: CheckMode_def)

text \<open>The five cases at concrete positions.\<close>

theorem CheckMode_spec_witness:
  "CheckMode 3 2 1 = 1 \<and>
   CheckMode 0 0 B_DC_PRED = B_DC_PRED_NOTOPLEFT \<and>
   CheckMode 0 2 B_DC_PRED = B_DC_PRED_NOLEFT \<and>
   CheckMode 3 0 B_DC_PRED = B_DC_PRED_NOTOP \<and>
   CheckMode 3 2 B_DC_PRED = B_DC_PRED"
  using CheckMode_spec [of 1 3 2] CheckMode_spec [of 1 0 0] CheckMode_spec [of 1 0 2]
        CheckMode_spec [of 1 3 0]
  by (simp add: B_DC_PRED_def)

subsection \<open>Transform dispatch\<close>

text \<open>The \<open>n\<close>-th iteration of the loop sees the pattern shifted left by \<open>2 * n\<close>.\<close>

lemma transform_loop_nth:
  "n < k \<Longrightarrow> transform_loop k bits ! n = DoTransform (push_bit (2 * n) bits)"
proof (induction k arbitrary: n bits)
  case 0
  then show ?case by simp
next
  case (Suc k)
  show ?case
  proof (cases n)
    case 0
    then show ?thesis by simp
  next
    case (Suc m)
    with Suc.prems have "m < k" by simp
    from Suc.IH [OF this, of "push_bit 2 bits"] Suc show ?thesis
      by (simp add: push_bit_push_bit add.commute flip: push_bit_add)
  qed
qed

lemma DoTransform_zero: "DoTransform 0 = None"
  by (simp add: DoTransform_def)

lemma luma_transforms_nth:
  "n < 16 \<Longrightarrow> luma_transforms i4 y ! n = DoTransform (push_bit (2 * n) y)"
  by (simp add: luma_transforms_def transform_loop_nth DoTransform_zero)

lemma top_two_bits: "drop_bit 30 (w :: 32 word) \<in> {0, 1, 2, 3}"
proof -
  let ?x = "drop_bit 30 w"
  have "unat w < 2 ^ 32" using unsigned_less [of w] by simp
  moreover have "unat ?x = unat w div 2 ^ 30"
    by (subst unat_drop_bit_eq) (simp add: drop_bit_eq_div)
  ultimately have "unat ?x < 4"
    by simp
  then consider "unat ?x = 0" | "unat ?x = 1" | "unat ?x = 2" | "unat ?x = 3"
    by linarith
  then show ?thesis
  proof cases
    case 1
    then have "word_of_nat (unat ?x) = (word_of_nat 0 :: 32 word)" by (simp only:)
    then show ?thesis by simp
  next
    case 2
    then have "word_of_nat (unat ?x) = (word_of_nat 1 :: 32 word)" by (simp only:)
    then show ?thesis by simp
  next
    case 3
    then have "word_of_nat (unat ?x) = (word_of_nat 2 :: 32 word)" by (simp only:)
    then show ?thesis by simp
  next
    case 4
    then have "word_of_nat (unat ?x) = (word_of_nat 3 :: 32 word)" by (simp only:)
    then show ?thesis by simp
  qed
qed

lemma DoTransform_cases:
  "DoTransform bits =
     (if drop_bit 30 bits = 3 then Some VP8Transform
      else if drop_bit 30 bits = 2 then Some VP8TransformAC3
      else if drop_bit 30 bits = 1 then Some VP8TransformDC
      else None)"
  by (simp add: DoTransform_def Let_def)

lemma chroma_transforms_eq:
  "chroma_transforms non_zero_uv =
     (DoUVTransform non_zero_uv, DoUVTransform (drop_bit 8 non_zero_uv))"
  by (simp add: chroma_transforms_def)

text \<open>
  Claim C7. For every sub-block \<open>n\<close> of the sixteen, the kernel run on it is decided by
  the top two bits of the non-zero pattern shifted left by 2 per sub-block: 3 runs the
  full transform, 2 the AC3 variant, 1 the DC-only transform and 0 runs nothing. For
  each chroma half, a UV transform runs exactly when one of the low 8 bits of its mask
  is set, and it is the DC-only UV variant exactly when moreover \<open>mask AND 0xAA = 0\<close>.
\<close>

theorem transform_dispatch:
  "n < 16 \<longrightarrow>
     (let sel = drop_bit 30 (push_bit (2 * n) non_zero_y);
          run = luma_transforms is_i4x4 non_zero_y ! n
      in sel \<in> {0, 1, 2, 3} \<and>
         (sel = 3 \<longrightarrow> run = Some VP8Transform) \<and>
         (sel = 2 \<longrightarrow> run = Some VP8TransformAC3) \<and>
         (sel = 1 \<longrightarrow> run = Some VP8TransformDC) \<and>
         (sel = 0 \<longrightarrow> run = None)) \<and>
     (let mask_u = non_zero_uv; mask_v = drop_bit 8 non_zero_uv
      in fst (chroma_transforms non_zero_uv) =
           (if mask_u AND 0xff = 0 then None
            else if mask_u AND 0xaa = 0 then Some VP8TransformDCUV else Some VP8TransformUV) \<and>
         snd (chroma_transforms non_zero_uv) =
           (if mask_v AND 0xff = 0 then None
            else if mask_v AND 0xaa = 0 then Some VP8TransformDCUV else Some VP8TransformUV))"
proof (intro conjI impI)
  assume n: "n < 16"
  define sel where "sel = drop_bit 30 (push_bit (2 * n) non_zero_y)"
  have run: "luma_transforms is_i4x4 non_zero_y ! n =
               (if sel = 3 then Some VP8Transform
                else if sel = 2 then Some VP8TransformAC3
                else if sel = 1 then Some VP8TransformDC
                else None)"
    unfolding sel_def luma_transforms_nth [OF n] by (rule DoTransform_cases)
  have "sel \<in> {0, 1, 2, 3}"
    unfolding sel_def by (rule top_two_bits)
  then show "let sel = drop_bit 30 (push_bit (2 * n) non_zero_y);
                 run = luma_transforms is_i4x4 non_zero_y ! n
             in sel \<in> {0, 1, 2, 3} \<and>
                (sel = 3 \<longrightarrow> run = Some VP8Transform) \<and>
                (sel = 2 \<longrightarrow> run = Some VP8TransformAC3) \<and>
                (sel = 1 \<longrightarrow> run = Some VP8TransformDC) \<and>
                (sel = 0 \<longrightarrow> run = None)"
    unfolding Let_def run sel_def [symmetric] by simp
next
  show "let mask_u = non_zero_uv; mask_v = drop_bit 8 non_zero_uv
        in fst (chroma_transforms non_zero_uv) =
             (if mask_u AND 0xff = 0 then None
              else if mask_u AND 0xaa = 0 then Some VP8TransformDCUV else Some VP8TransformUV) \<and>
           snd (chroma_transforms non_zero_uv) =
             (if mask_v AND 0xff = 0 then None
              else if mask_v AND 0xaa = 0 then Some VP8TransformDCUV else Some VP8TransformUV)"
    unfolding Let_def chroma_transforms_eq fst_conv snd_conv DoUVTransform_def by simp
qed

text \<open>
  The pattern \<open>0xE4000000\<close> has the selectors 3, 2, 1, 0 for the first four sub-blocks;
  the chroma mask \<open>0x0201\<close> has a DC coefficient in U and an AC coefficient in V.
\<close>

theorem transform_dispatch_witness:
  "luma_transforms True 0xE4000000 ! 0 = Some VP8Transform \<and>
   luma_transforms True 0xE4000000 ! 1 = Some VP8TransformAC3 \<and>
   luma_transforms False 0xE4000000 ! 2 = Some VP8TransformDC \<and>
   luma_transforms False 0xE4000000 ! 3 = None \<and>
   chroma_transforms 0x0201 = (Some VP8TransformDCUV, Some VP8TransformUV)"
  using transform_dispatch [of 0 "0xE4000000" True "0x0201"]
        transform_dispatch [of 1 "0xE4000000" True "0x0201"]
        transform_dispatch [of 2 "0xE4000000" False "0x0201"]
        transform_dispatch [of 3 "0xE4000000" False "0x0201"]
  by (simp add: Let_def prod_eq_iff)

subsection \<open>Filter strengths\<close>

lemma segment_body_hdrs:
  "filter_hdr (segment_body s d) = filter_hdr d"
  "segment_hdr (segment_body s d) = segment_hdr d"
  "filter_type (segment_body s d) = filter_type d"
  by (simp_all add: segment_body_def)

lemma base_level_segment_body:
  "base_level (segment_body s d) t = base_level d t"
  by (simp add: base_level_def segment_body_hdrs)

lemma fstrengths_segment_body:
  "fstrengths (segment_body s d) t i =
     (if t = s \<and> i < 2
      then strength_body (filter_hdr d) (base_level d s) i (fstrengths d s i)
      else fstrengths d t i)"
  by (auto simp add: segment_body_def less_2_cases_iff)

lemma upt_segments: "[0 ..< NUM_MB_SEGMENTS] = [0, 1, 2, 3]"
  by (simp add: NUM_MB_SEGMENTS_def upt_rec)

lemma fstrengths_Precompute:
  assumes "filter_type dec > 0" "s < NUM_MB_SEGMENTS" "i < 2"
  shows "fstrengths (PrecomputeFilterStrengths dec) s i =
           strength_body (filter_hdr dec) (base_level dec s) i (fstrengths dec s i)"
proof -
  from assms(2) have "s = 0 \<or> s = 1 \<or> s = 2 \<or> s = 3"
    by (auto simp add: NUM_MB_SEGMENTS_def)
  with assms(1,3) show ?thesis
    by (auto simp add: PrecomputeFilterStrengths_def upt_segments fstrengths_segment_body
        segment_body_hdrs base_level_segment_body)
qed

lemma base_level_spec: "base_level dec s = spec_base dec s"
  by (simp add: base_level_def spec_base_def)

lemma clamped_level_spec:
  "clamped_level (filter_hdr dec) (base_level dec s) i = spec_level dec s i"
  by (simp add: clamped_level_def spec_level_def base_level_spec Let_def)

lemma clamped_level_range:
  "0 \<le> clamped_level hdr b i" "clamped_level hdr b i \<le> 63"
  by (simp_all add: clamped_level_def Let_def)

lemma drop_bit_int_le: "0 \<le> (l::int) \<Longrightarrow> drop_bit n l \<le> l"
  by (simp add: drop_bit_eq_div) (metis div_by_1 one_le_power zdiv_mono2 one_le_numeral zero_less_one)

lemma code_ilevel_range:
  assumes "1 \<le> l" "l \<le> 63"
  shows "1 \<le> code_ilevel l sh" "code_ilevel l sh \<le> 63"
proof -
  show "1 \<le> code_ilevel l sh" by (simp add: code_ilevel_def)
  have "drop_bit (if sh > 4 then 2 else 1 :: nat) l \<le> l"
    using assms by (intro drop_bit_int_le) simp
  with assms show "code_ilevel l sh \<le> 63" by (auto simp add: code_ilevel_def)
qed

lemma uint_word8_of_int: "0 \<le> x \<Longrightarrow> x < 256 \<Longrightarrow> uint (word_of_int x :: 8 word) = x"
  by (simp add: uint_word_of_int take_bit_int_eq_self)

lemma strength_body_pos:
  assumes "clamped_level hdr b i = l" "0 < l"
  shows "strength_body hdr b i info =
           info\<lparr>f_ilevel := word_of_int (code_ilevel l (sharpness hdr)),
                f_limit := word_of_int (2 * l + code_ilevel l (sharpness hdr)),
                hev_thresh := (if l \<ge> 40 then 2 else if l \<ge> 15 then 1 else 0),
                f_inner := word_of_int (int i)\<rparr>"
  using assms by (auto simp add: strength_body_def code_ilevel_def Let_def max_def min_def)

lemma strength_body_zero:
  assumes "clamped_level hdr b i = 0"
  shows "strength_body hdr b i info = info\<lparr>f_limit := 0, f_inner := word_of_int (int i)\<rparr>"
  using assms by (simp add: strength_body_def Let_def)

lemma strength_body_fields:
  assumes "clamped_level hdr b i = l" "0 < l"
  shows "uint (f_ilevel (strength_body hdr b i info)) = code_ilevel l (sharpness hdr)"
    and "uint (f_limit (strength_body hdr b i info)) = 2 * l + code_ilevel l (sharpness hdr)"
    and "uint (hev_thresh (strength_body hdr b i info)) = spec_hev_thresh l"
proof -
  from assms clamped_level_range [of hdr b i] have l: "1 \<le> l" "l \<le> 63" by simp_all
  note r = code_ilevel_range [OF l, of "sharpness hdr"]
  have "f_ilevel (strength_body hdr b i info) = word_of_int (code_ilevel l (sharpness hdr))"
    by (simp add: strength_body_pos [OF assms])
  moreover have "uint (word_of_int (code_ilevel l (sharpness hdr)) :: 8 word) =
                   code_ilevel l (sharpness hdr)"
    using r by (intro uint_word8_of_int) simp_all
  ultimately show "uint (f_ilevel (strength_body hdr b i info)) = code_ilevel l (sharpness hdr)"
    by (simp only:)
  have "f_limit (strength_body hdr b i info) =
          word_of_int (2 * l + code_ilevel l (sharpness hdr))"
    by (simp add: strength_body_pos [OF assms])
  moreover have "uint (word_of_int (2 * l + code_ilevel l (sharpness hdr)) :: 8 word) =
                   2 * l + code_ilevel l (sharpness hdr)"
    using r l by (intro uint_word8_of_int) simp_all
  ultimately show "uint (f_limit (strength_body hdr b i info)) =
                     2 * l + code_ilevel l (sharpness hdr)"
    by (simp only:)
  show "uint (hev_thresh (strength_body hdr b i info)) = spec_hev_thresh l"
    by (simp add: strength_body_pos [OF assms] spec_hev_thresh_def)
qed

lemma f_inner_strength_body:
  assumes "i < 2"
  shows "uint (f_inner (strength_body hdr b i info)) = int i"
proof -
  from assms have "i = 0 \<or> i = 1" by auto
  then show ?thesis by (auto simp add: strength_body_def Let_def)
qed

lemma f_limit_strength_body_zero:
  "clamped_level hdr b i = 0 \<Longrightarrow> f_limit (strength_body hdr b i info) = 0"
  by (simp add: strength_body_zero)

lemma code_ilevel_spec:
  assumes "0 < sh" "sh \<le> 7"
  shows "code_ilevel l sh = spec_ilevel l sh"
  using assms by (auto simp add: code_ilevel_def spec_ilevel_def max_def min_def)


text \<open>
  The specification's step 3 caps the inner level by \<open>9 - sharpness\<close> whatever the
  sharpness. At level 20 and sharpness 0 that gives 9 and a limit of 49; the code
  stores the level itself, 20, and the limit 60. And the specification has a record
  stored for every filter header: at level 20, sharpness 3 and \<open>is_i4x4 = 1\<close> its
  steps give the inner level 6, the limit 46 and \<open>f_inner = 1\<close>; with
  \<^verbatim>\<open>filter_type\<close> 0 the code stores nothing and the record keeps its three zeros.
\<close>

theorem PrecomputeFilterStrengths_spec_counterexample:
  "level (filter_hdr (dec_example 20 0)) = 20 \<and>
   sharpness (filter_hdr (dec_example 20 0)) = 0 \<and>
   spec_level (dec_example 20 0) 0 0 = 20 \<and>
   spec_ilevel 20 0 = 9 \<and>
   uint (f_ilevel (fstrengths (PrecomputeFilterStrengths (dec_example 20 0)) 0 0)) = 20 \<and>
   uint (f_limit (fstrengths (PrecomputeFilterStrengths (dec_example 20 0)) 0 0)) = 60 \<and>
   2 * 20 + spec_ilevel 20 0 = 49 \<and>
   level (filter_hdr ((dec_example 20 3)\<lparr>filter_type := 0\<rparr>)) = 20 \<and>
   sharpness (filter_hdr ((dec_example 20 3)\<lparr>filter_type := 0\<rparr>)) = 3 \<and>
   spec_level ((dec_example 20 3)\<lparr>filter_type := 0\<rparr>) 0 1 = 20 \<and>
   spec_ilevel 20 3 = 6 \<and>
   2 * 20 + spec_ilevel 20 3 = 46 \<and>
   uint (f_ilevel (fstrengths
           (PrecomputeFilterStrengths ((dec_example 20 3)\<lparr>filter_type := 0\<rparr>)) 0 1)) = 0 \<and>
   uint (f_limit (fstrengths
           (PrecomputeFilterStrengths ((dec_example 20 3)\<lparr>filter_type := 0\<rparr>)) 0 1)) = 0 \<and>
   uint (f_inner (fstrengths
           (PrecomputeFilterStrengths ((dec_example 20 3)\<lparr>filter_type := 0\<rparr>)) 0 1)) = 0"
  by (simp add: dec_example_def PrecomputeFilterStrengths_def upt_segments segment_body_def
      strength_body_def clamped_level_def base_level_def spec_level_def spec_base_def
      spec_ilevel_def Let_def)

text \<open>
  Claim C2, amended. For every segment \<open>s\<close>, every \<open>is_i4x4\<close> in \<open>{0, 1}\<close> and every
  filter header with sharpness at most 7: when \<^verbatim>\<open>filter_type\<close> is positive,
  \<^verbatim>\<open>PrecomputeFilterStrengths\<close> stores the record of the spec's three steps, with the
  cap \<open>9 - sharpness\<close> of step 3 applied only when the sharpness is positive: the level
  is the base level plus the deltas, clamped to \<open>[0, 63]\<close>; a level of 0 stores
  \<open>f_limit = 0\<close>; a positive level stores
  \<open>f_ilevel = min (max 1 (level >> (sharpness > 4 ? 2 : 1))) (9 - sharpness)\<close> when the
  sharpness is positive and \<open>f_ilevel = level\<close> when it is 0,
  \<open>f_limit = 2 * level + f_ilevel\<close> and the spec's \<open>hev_thresh\<close>; and
  \<open>f_inner = is_i4x4\<close>. When \<^verbatim>\<open>filter_type\<close> is not positive (the filter is off),
  it stores nothing: the decoder state is unchanged.
\<close>

theorem PrecomputeFilterStrengths_steps:
  assumes "s < NUM_MB_SEGMENTS" and "i4x4 < 2"
    and "sharpness (filter_hdr dec) \<le> 7"
  shows "(filter_type dec > 0 \<longrightarrow>
           (let info = fstrengths (PrecomputeFilterStrengths dec) s i4x4;
                lvl = spec_level dec s i4x4;
                sharp = sharpness (filter_hdr dec)
            in 0 \<le> lvl \<and> lvl \<le> 63 \<and>
               uint (f_inner info) = int i4x4 \<and>
               (lvl = 0 \<longrightarrow> f_limit info = 0) \<and>
               (lvl > 0 \<longrightarrow>
                  uint (f_ilevel info) = (if sharp > 0 then spec_ilevel lvl sharp else lvl) \<and>
                  uint (f_limit info) = 2 * lvl + uint (f_ilevel info) \<and>
                  uint (hev_thresh info) = spec_hev_thresh lvl))) \<and>
         (\<not> filter_type dec > 0 \<longrightarrow> PrecomputeFilterStrengths dec = dec)"
proof (cases "filter_type dec > 0")
  case False
  then show ?thesis by (simp add: PrecomputeFilterStrengths_def)
next
  case True
  define lvl where "lvl = spec_level dec s i4x4"
  define hdr where "hdr = filter_hdr dec"
  define info where "info = strength_body hdr (base_level dec s) i4x4 (fstrengths dec s i4x4)"
  have cl: "clamped_level hdr (base_level dec s) i4x4 = lvl"
    unfolding hdr_def lvl_def by (rule clamped_level_spec)
  have range: "0 \<le> lvl" "lvl \<le> 63"
    using clamped_level_range [of hdr "base_level dec s" i4x4] cl by simp_all
  have inner: "uint (f_inner info) = int i4x4"
    unfolding info_def using assms(2) by (rule f_inner_strength_body)
  have zero: "f_limit info = 0" if "lvl = 0"
    unfolding info_def using cl that by (simp add: f_limit_strength_body_zero)
  have il: "code_ilevel lvl (sharpness hdr) =
              (if sharpness hdr > 0 then spec_ilevel lvl (sharpness hdr) else lvl)" if "0 < lvl"
    using that assms(3) code_ilevel_spec [of "sharpness hdr" lvl]
    by (auto simp add: hdr_def code_ilevel_def)
  have pos: "uint (f_ilevel info) =
               (if sharpness hdr > 0 then spec_ilevel lvl (sharpness hdr) else lvl) \<and>
             uint (f_limit info) = 2 * lvl + uint (f_ilevel info) \<and>
             uint (hev_thresh info) = spec_hev_thresh lvl" if "0 < lvl"
    unfolding info_def strength_body_fields [OF cl that] il [OF that] by simp
  have "fstrengths (PrecomputeFilterStrengths dec) s i4x4 = info"
    unfolding info_def hdr_def using True assms(1,2) by (rule fstrengths_Precompute)
  then show ?thesis
    unfolding Let_def lvl_def [symmetric] hdr_def [symmetric]
    using True range inner zero pos by simp
qed

text \<open>
  The theorem at level 20 and sharpness 3, at level 0, and at level 20 with the filter
  off.
\<close>

theorem PrecomputeFilterStrengths_steps_witness:
  "spec_level (dec_example 20 3) 0 1 = 20 \<and>
   spec_level (dec_example 0 3) 2 0 = 0 \<and>
   uint (f_inner (fstrengths (PrecomputeFilterStrengths (dec_example 20 3)) 0 1)) = 1 \<and>
   uint (f_ilevel (fstrengths (PrecomputeFilterStrengths (dec_example 20 3)) 0 1)) = 6 \<and>
   uint (f_limit (fstrengths (PrecomputeFilterStrengths (dec_example 20 3)) 0 1)) = 46 \<and>
   uint (hev_thresh (fstrengths (PrecomputeFilterStrengths (dec_example 20 3)) 0 1)) = 1 \<and>
   f_limit (fstrengths (PrecomputeFilterStrengths (dec_example 0 3)) 2 0) = 0 \<and>
   PrecomputeFilterStrengths ((dec_example 20 3)\<lparr>filter_type := 0\<rparr>) =
     (dec_example 20 3)\<lparr>filter_type := 0\<rparr>"
proof -
  have lv: "spec_level (dec_example 20 3) 0 1 = 20" "spec_level (dec_example 0 3) 2 0 = 0"
    "spec_level (dec_example 20 3) 0 (Suc 0) = 20"
    by (simp_all add: spec_level_def spec_base_def dec_example_def)
  have hy: "filter_type (dec_example 20 3) > 0" "filter_type (dec_example 0 3) > 0"
    "(0::nat) < NUM_MB_SEGMENTS" "(2::nat) < NUM_MB_SEGMENTS" "(1::nat) < 2" "(0::nat) < 2"
    "sharpness (filter_hdr (dec_example 20 3)) \<le> 7"
    "sharpness (filter_hdr (dec_example 0 3)) \<le> 7"
    "sharpness (filter_hdr (dec_example 20 3)) = 3"
    "sharpness (filter_hdr ((dec_example 20 3)\<lparr>filter_type := 0\<rparr>)) \<le> 7"
    "\<not> filter_type ((dec_example 20 3)\<lparr>filter_type := 0\<rparr>) > 0"
    by (simp_all add: dec_example_def NUM_MB_SEGMENTS_def)
  show ?thesis
    using PrecomputeFilterStrengths_steps [OF hy(3) hy(5) hy(7)]
          PrecomputeFilterStrengths_steps [OF hy(4) hy(6) hy(8)]
          PrecomputeFilterStrengths_steps [OF hy(3) hy(5) hy(10)]
    by (simp add: Let_def lv hy(1,2,9,11) spec_ilevel_def spec_hev_thresh_def)
qed

text \<open>
  Claim C8. For every record the precomputation produces: \<open>f_limit = 0\<close> if and only if
  the clamped level is 0; and when \<open>f_limit\<close> is not 0 it lies in \<open>[3, 189]\<close>,
  \<open>f_ilevel\<close> in \<open>[1, 63]\<close>, \<open>f_inner\<close> is \<open>is_i4x4\<close>, in \<open>{0, 1}\<close>, and
  \<open>hev_thresh\<close> is 0, 1 or 2.
\<close>

theorem filter_strength_record_invariant:
  assumes "filter_type dec > 0" and "s < NUM_MB_SEGMENTS" and "i4x4 < 2"
  shows "let info = fstrengths (PrecomputeFilterStrengths dec) s i4x4;
             lvl = clamped_level (filter_hdr dec) (base_level dec s) i4x4
         in (f_limit info = 0 \<longleftrightarrow> lvl = 0) \<and>
            (f_limit info \<noteq> 0 \<longrightarrow>
               3 \<le> uint (f_limit info) \<and> uint (f_limit info) \<le> 189 \<and>
               1 \<le> uint (f_ilevel info) \<and> uint (f_ilevel info) \<le> 63 \<and>
               uint (f_inner info) = int i4x4 \<and> uint (f_inner info) \<in> {0, 1} \<and>
               uint (hev_thresh info) \<in> {0, 1, 2})"
proof -
  define hdr where "hdr = filter_hdr dec"
  define lvl where "lvl = clamped_level hdr (base_level dec s) i4x4"
  define info where "info = strength_body hdr (base_level dec s) i4x4 (fstrengths dec s i4x4)"
  have range: "0 \<le> lvl" "lvl \<le> 63"
    unfolding lvl_def by (rule clamped_level_range)+
  have inner: "uint (f_inner info) = int i4x4"
    unfolding info_def using assms(3) by (rule f_inner_strength_body)
  have zero: "f_limit info = 0" if "lvl = 0"
    unfolding info_def using that by (simp add: lvl_def f_limit_strength_body_zero)
  have pos: "3 \<le> uint (f_limit info) \<and> uint (f_limit info) \<le> 189 \<and>
             1 \<le> uint (f_ilevel info) \<and> uint (f_ilevel info) \<le> 63 \<and>
             uint (hev_thresh info) \<in> {0, 1, 2}" if "0 < lvl"
  proof -
    from that range have l: "1 \<le> lvl" "lvl \<le> 63" by simp_all
    note r = code_ilevel_range [OF l, of "sharpness hdr"]
    show ?thesis
      unfolding info_def strength_body_fields [OF lvl_def [symmetric] that]
      using r l by (simp add: spec_hev_thresh_def)
  qed
  have nz: "f_limit info \<noteq> 0" if "0 < lvl"
    using pos [OF that] by auto
  have "fstrengths (PrecomputeFilterStrengths dec) s i4x4 = info"
    unfolding info_def hdr_def using assms by (rule fstrengths_Precompute)
  then show ?thesis
    unfolding Let_def lvl_def [symmetric] hdr_def [symmetric]
    using range inner zero pos nz assms(3) by (cases "lvl = 0") auto
qed

text \<open>The theorem at the highest level, 63, and at level 0.\<close>

theorem filter_strength_record_invariant_witness:
  "clamped_level (filter_hdr (dec_example 63 0)) (base_level (dec_example 63 0) 3) 0 = 63 \<and>
   uint (f_limit (fstrengths (PrecomputeFilterStrengths (dec_example 63 0)) 3 0)) = 189 \<and>
   uint (f_ilevel (fstrengths (PrecomputeFilterStrengths (dec_example 63 0)) 3 0)) = 63 \<and>
   clamped_level (filter_hdr (dec_example 0 0)) (base_level (dec_example 0 0) 2) 0 = 0 \<and>
   f_limit (fstrengths (PrecomputeFilterStrengths (dec_example 0 0)) 2 0) = 0"
proof -
  have hy: "filter_type (dec_example 63 0) > 0" "filter_type (dec_example 0 0) > 0"
    "(3::nat) < NUM_MB_SEGMENTS" "(2::nat) < NUM_MB_SEGMENTS" "(0::nat) < 2"
    by (simp_all add: dec_example_def NUM_MB_SEGMENTS_def)
  have lv: "clamped_level (filter_hdr (dec_example 63 0)) (base_level (dec_example 63 0) 3) 0 = 63"
    "clamped_level (filter_hdr (dec_example 0 0)) (base_level (dec_example 0 0) 2) 0 = 0"
    by (simp_all add: clamped_level_def base_level_def dec_example_def)
  have ex: "uint (f_limit (fstrengths (PrecomputeFilterStrengths (dec_example 63 0)) 3 0)) = 189"
    "uint (f_ilevel (fstrengths (PrecomputeFilterStrengths (dec_example 63 0)) 3 0)) = 63"
    unfolding fstrengths_Precompute [OF hy(1) hy(3) hy(5)]
    using strength_body_fields [OF lv(1)]
    by (simp_all add: code_ilevel_def dec_example_def)
  show ?thesis
    using filter_strength_record_invariant [OF hy(1) hy(3) hy(5)]
          filter_strength_record_invariant [OF hy(2) hy(4) hy(5)]
    by (simp add: Let_def lv ex)
qed

section \<open>Properties of the histogram clustering\<close>

subsection \<open>The trivial symbol of a histogram\<close>

lemma nonzero_indices_bound: "i \<in> set (nonzero_indices X) \<Longrightarrow> i < length X"
  by (simp add: nonzero_indices_def)

lemma PopulationCost_trivial_sym:
  "fst (snd (PopulationCost d population len)) =
     (if length (nonzero_indices (take len population)) = 1
      then word_of_nat (hd (nonzero_indices (take len population)))
      else VP8L_NON_TRIVIAL_SYM)"
proof -
  have "last xs = hd xs" if "length xs = 1" for xs :: "nat list"
    using that by (cases xs) simp_all
  then show ?thesis
    by (auto simp add: PopulationCost_def VP8LGetEntropyUnrefined_def Let_def)
qed

lemma single_index_small:
  assumes "length (nonzero_indices (take NUM_LITERAL_CODES X)) = 1"
  shows "hd (nonzero_indices (take NUM_LITERAL_CODES X)) < 256"
proof -
  from assms have "hd (nonzero_indices (take NUM_LITERAL_CODES X))
                     \<in> set (nonzero_indices (take NUM_LITERAL_CODES X))"
    by (cases "nonzero_indices (take NUM_LITERAL_CODES X)") simp_all
  then have "hd (nonzero_indices (take NUM_LITERAL_CODES X)) < length (take NUM_LITERAL_CODES X)"
    by (rule nonzero_indices_bound)
  then show ?thesis by (simp add: NUM_LITERAL_CODES_def)
qed

lemma take_bit_8_of_small: "n < 256 \<Longrightarrow> take_bit 8 (word_of_nat n :: u32) = word_of_nat n"
proof -
  assume "n < 256"
  then have "take_bit 8 n = n" by (simp add: take_bit_nat_eq_self)
  then have "word_of_nat (take_bit 8 n) = (word_of_nat n :: u32)" by simp
  then show ?thesis by (simp only: of_nat_take_bit)
qed

lemma or_small_not_all_ones:
  assumes "take_bit 8 x = x" "take_bit 8 y = y" "take_bit 8 z = z"
  shows "(x OR y OR z) \<noteq> (VP8L_NON_TRIVIAL_SYM :: u32)"
proof
  assume "x OR y OR z = VP8L_NON_TRIVIAL_SYM"
  then have "take_bit 8 (x OR y OR z) = take_bit 8 VP8L_NON_TRIVIAL_SYM" by simp
  then have "x OR y OR z = take_bit 8 VP8L_NON_TRIVIAL_SYM"
    using assms by (simp add: take_bit_or)
  with \<open>x OR y OR z = VP8L_NON_TRIVIAL_SYM\<close>
  have "VP8L_NON_TRIVIAL_SYM = take_bit 8 VP8L_NON_TRIVIAL_SYM" by simp
  then show False by (simp add: VP8L_NON_TRIVIAL_SYM_def)
qed

lemma non_trivial_minus_one: "VP8L_NON_TRIVIAL_SYM = - 1"
  by (simp add: VP8L_NON_TRIVIAL_SYM_def)

lemma or_all_ones:
  "x = VP8L_NON_TRIVIAL_SYM \<or> y = VP8L_NON_TRIVIAL_SYM \<or> z = VP8L_NON_TRIVIAL_SYM
     \<Longrightarrow> (x OR y OR z) = VP8L_NON_TRIVIAL_SYM"
  unfolding non_trivial_minus_one by auto


lemma PopulationCost_cases:
  obtains c s u where "PopulationCost d population len = (c, s, u)"
  by (cases "PopulationCost d population len") auto

lemma trivial_symbol_UpdateHistogramCost:
  "trivial_symbol (UpdateHistogramCost d h) =
     (let A = nonzero_indices (take NUM_LITERAL_CODES (alpha h));
          R = nonzero_indices (take NUM_LITERAL_CODES (red h));
          B = nonzero_indices (take NUM_LITERAL_CODES (blue h))
      in if length A = 1 \<and> length R = 1 \<and> length B = 1
         then push_bit 24 (word_of_nat (hd A)) OR push_bit 16 (word_of_nat (hd R)) OR
              word_of_nat (hd B)
         else VP8L_NON_TRIVIAL_SYM)"
proof -
  define A where "A = nonzero_indices (take NUM_LITERAL_CODES (alpha h))"
  define R where "R = nonzero_indices (take NUM_LITERAL_CODES (red h))"
  define B where "B = nonzero_indices (take NUM_LITERAL_CODES (blue h))"
  define sa where "sa = fst (snd (PopulationCost d (alpha h) NUM_LITERAL_CODES))"
  define sr where "sr = fst (snd (PopulationCost d (red h) NUM_LITERAL_CODES))"
  define sb where "sb = fst (snd (PopulationCost d (blue h) NUM_LITERAL_CODES))"
  have sa: "sa = (if length A = 1 then word_of_nat (hd A) else VP8L_NON_TRIVIAL_SYM)"
    and sr: "sr = (if length R = 1 then word_of_nat (hd R) else VP8L_NON_TRIVIAL_SYM)"
    and sb: "sb = (if length B = 1 then word_of_nat (hd B) else VP8L_NON_TRIVIAL_SYM)"
    unfolding sa_def sr_def sb_def A_def R_def B_def by (rule PopulationCost_trivial_sym)+
  have code: "trivial_symbol (UpdateHistogramCost d h) =
                (if (sa OR sr OR sb) = VP8L_NON_TRIVIAL_SYM then VP8L_NON_TRIVIAL_SYM
                 else push_bit 24 sa OR push_bit 16 sr OR sb)"
    unfolding sa_def sr_def sb_def
    by (simp add: UpdateHistogramCost_def Let_def split_beta)
  show ?thesis
  proof (cases "length A = 1 \<and> length R = 1 \<and> length B = 1")
    case True
    then have small: "hd A < 256" "hd R < 256" "hd B < 256"
      unfolding A_def R_def B_def by (simp_all add: single_index_small)
    from True have eq: "sa = word_of_nat (hd A)" "sr = word_of_nat (hd R)" "sb = word_of_nat (hd B)"
      by (simp_all add: sa sr sb)
    have "(sa OR sr OR sb) \<noteq> VP8L_NON_TRIVIAL_SYM"
      unfolding eq using small by (intro or_small_not_all_ones take_bit_8_of_small)
    with True show ?thesis
      unfolding code Let_def A_def [symmetric] R_def [symmetric] B_def [symmetric]
      by (simp add: eq)
  next
    case False
    then have "sa = VP8L_NON_TRIVIAL_SYM \<or> sr = VP8L_NON_TRIVIAL_SYM \<or> sb = VP8L_NON_TRIVIAL_SYM"
      by (auto simp add: sa sr sb)
    then have "(sa OR sr OR sb) = VP8L_NON_TRIVIAL_SYM" by (rule or_all_ones)
    with False show ?thesis
      unfolding code Let_def A_def [symmetric] R_def [symmetric] B_def [symmetric]
      by auto
  qed
qed

lemma packed_not_reserved:
  assumes "b < 256"
  shows "push_bit 24 (x :: u32) OR push_bit 16 y OR word_of_nat b \<noteq> VP8L_NON_TRIVIAL_SYM"
proof
  assume eq: "push_bit 24 x OR push_bit 16 y OR word_of_nat b = VP8L_NON_TRIVIAL_SYM"
  from assms have "\<not> bit b 8" by (simp add: bit_iff_odd)
  then have "\<not> bit (push_bit 24 x OR push_bit 16 y OR (word_of_nat b :: u32)) 8"
    by (simp add: bit_or_iff bit_push_bit_iff bit_of_nat_iff)
  moreover have "bit VP8L_NON_TRIVIAL_SYM 8"
    by (simp add: non_trivial_minus_one)
  ultimately show False using eq by simp
qed

lemma filter_eq_upt: "filter (\<lambda>j. j = i) [0 ..< n] = (if i < n then [i] else [])"
  by (induction n) auto

lemma nonzero_indices_single:
  "nonzero_indices ((replicate n 0)[i := v]) = (if i < n \<and> v \<noteq> 0 then [i] else [])"
proof -
  have "((replicate n 0)[i := v] ! j \<noteq> 0) = (v \<noteq> 0 \<and> j = i)" if "j < n" for j
    using that by (cases "j = i") simp_all
  then have "filter (\<lambda>j. (replicate n 0)[i := v] ! j \<noteq> 0) [0 ..< n] =
          filter (\<lambda>j. v \<noteq> 0 \<and> j = i) [0 ..< n]"
    by (intro filter_cong) simp_all
  also have "\<dots> = (if v \<noteq> 0 then filter (\<lambda>j. j = i) [0 ..< n] else [])"
    by simp
  finally show ?thesis
    by (simp add: nonzero_indices_def filter_eq_upt)
qed

lemma nonzero_indices_zero: "nonzero_indices (replicate n 0) = []"
  by (simp add: nonzero_indices_def)

text \<open>
  The specification packs the green component too and asks for an unused distance
  table. For the histogram of the single pixel \<open>(A, R, G, B) = (255, 0, 5, 0)\<close> each of
  the four tables has one non-zero symbol and the distance table is empty, yet the code
  stores \<open>0xff000000\<close>, not \<open>0xff000500\<close>. With a backward reference added the
  distance table is used and the literal table has two non-zero symbols, and the code
  still stores \<open>0xff000000\<close>, not the reserved value.
\<close>

theorem UpdateHistogramCost_spec_counterexample:
  "nonzero_indices (alpha (pixel_histogram 255 0 5 0)) = [255] \<and>
   nonzero_indices (red (pixel_histogram 255 0 5 0)) = [0] \<and>
   nonzero_indices (literal (pixel_histogram 255 0 5 0)) = [5] \<and>
   nonzero_indices (blue (pixel_histogram 255 0 5 0)) = [0] \<and>
   nonzero_indices (distance (pixel_histogram 255 0 5 0)) = [] \<and>
   trivial_symbol (UpdateHistogramCost dsp_example (pixel_histogram 255 0 5 0)) = 0xff000000 \<and>
   (push_bit 24 255 OR push_bit 16 0 OR push_bit 8 5 OR 0 :: u32) = 0xff000500 \<and>
   nonzero_indices (distance pixel_and_copy_histogram) = [0] \<and>
   trivial_symbol (UpdateHistogramCost dsp_example pixel_and_copy_histogram) = 0xff000000 \<and>
   VP8L_NON_TRIVIAL_SYM = 0xffffffff"
  by (simp add: trivial_symbol_UpdateHistogramCost Let_def)
     (simp add: pixel_and_copy_histogram_def pixel_histogram_def nonzero_indices_single
       nonzero_indices_zero NUM_LITERAL_CODES_def VP8L_NON_TRIVIAL_SYM_def)

text \<open>
  Claim C1, amended. For every histogram processed by \<^verbatim>\<open>UpdateHistogramCost\<close>: if
  exactly one symbol has a non-zero count in each of the alpha, red and blue tables,
  then \<open>trivial_symbol\<close> is set to \<open>(A << 24) | (R << 16) | B\<close>, where \<open>A\<close>, \<open>R\<close>, \<open>B\<close>
  are these symbols, and this value is not the reserved one; in every other case it is
  set to the reserved \<open>NON_TRIVIAL\<close> value. The literal (green) table and the distance
  table play no part.
\<close>

theorem UpdateHistogramCost_trivial_symbol:
  "trivial_symbol (UpdateHistogramCost d h) =
     (let A = nonzero_indices (take NUM_LITERAL_CODES (alpha h));
          R = nonzero_indices (take NUM_LITERAL_CODES (red h));
          B = nonzero_indices (take NUM_LITERAL_CODES (blue h))
      in if length A = 1 \<and> length R = 1 \<and> length B = 1
         then push_bit 24 (word_of_nat (hd A)) OR push_bit 16 (word_of_nat (hd R)) OR
              word_of_nat (hd B)
         else VP8L_NON_TRIVIAL_SYM) \<and>
   (trivial_symbol (UpdateHistogramCost d h) = VP8L_NON_TRIVIAL_SYM \<longleftrightarrow>
      \<not> (length (nonzero_indices (take NUM_LITERAL_CODES (alpha h))) = 1 \<and>
         length (nonzero_indices (take NUM_LITERAL_CODES (red h))) = 1 \<and>
         length (nonzero_indices (take NUM_LITERAL_CODES (blue h))) = 1))"
proof -
  have "push_bit 24 (x :: u32) OR push_bit 16 y OR
          word_of_nat (hd (nonzero_indices (take NUM_LITERAL_CODES (blue h))))
        \<noteq> VP8L_NON_TRIVIAL_SYM"
    if "length (nonzero_indices (take NUM_LITERAL_CODES (blue h))) = 1" for x y
    using that by (intro packed_not_reserved single_index_small)
  then show ?thesis
    by (auto simp add: trivial_symbol_UpdateHistogramCost Let_def)
qed

subsection \<open>The trivial symbol of a sum\<close>

text \<open>
  Claim C9. For every pair of histograms \<open>a\<close> and \<open>b\<close> (and every \<open>out\<close>), the sum has
  the trivial symbol of \<open>a\<close> when \<open>a\<close> and \<open>b\<close> have the same trivial symbol and it is
  not \<open>NON_TRIVIAL\<close>, and \<open>NON_TRIVIAL\<close> in every other case.
\<close>

theorem HistogramAdd_trivial_symbol:
  "trivial_symbol (HistogramAdd a b out) =
     (if trivial_symbol a = trivial_symbol b \<and> trivial_symbol a \<noteq> VP8L_NON_TRIVIAL_SYM
      then trivial_symbol a else VP8L_NON_TRIVIAL_SYM)"
  by (simp add: HistogramAdd_def VP8LHistogramAdd_def)

subsection \<open>The greedy threshold\<close>

lemma c_div_nonneg: "0 \<le> a \<Longrightarrow> 0 < b \<Longrightarrow> c_div a b = a div b"
  by (cases "a = 0") (simp_all add: c_div_def)

lemma DivRound_nonneg:
  assumes "0 \<le> a" "0 < b"
  shows "DivRound a b = (a + b div 2) div b"
proof -
  have "c_div b 2 = b div 2" using assms by (simp add: c_div_nonneg)
  moreover have "0 \<le> a + b div 2" using assms by simp
  ultimately show ?thesis using assms by (simp add: DivRound_def c_div_nonneg)
qed

text \<open>
  The specification takes the floor of \<open>quality^3 * 99 / 10^6\<close>; the code divides with
  \<^verbatim>\<open>DivRound\<close>. At quality 75 the quotient is 41.77: the code's threshold is 43, the
  specification's 42.
\<close>

theorem threshold_size_floor_counterexample:
  "threshold_size 75 = 43 \<and> 1 + (75 ^ 3 * 99) div 10 ^ 6 = (42 :: int)"
  by (simp add: threshold_size_def MAX_HISTO_GREEDY_def DivRound_nonneg)

text \<open>
  Claim C5, amended. For every quality in \<open>[0, 100]\<close> the threshold under which the
  greedy clusterer is invoked is 1 plus \<open>quality^3 * 99 / 10^6\<close> rounded to the nearest
  integer (a half upwards), and it never exceeds 100.
\<close>

theorem threshold_size_ramp:
  assumes "0 \<le> quality" "quality \<le> 100"
  shows "threshold_size quality = 1 + (quality ^ 3 * 99 + 500000) div 10 ^ 6 \<and>
         1 \<le> threshold_size quality \<and> threshold_size quality \<le> 100"
proof -
  have cube: "quality * quality * quality = quality ^ 3"
    by (simp add: power3_eq_cube)
  have nonneg: "0 \<le> quality ^ 3" using assms(1) by simp
  have "quality ^ 3 \<le> 100 ^ 3" using assms by (intro power_mono) simp_all
  then have le: "quality ^ 3 \<le> 1000000" by simp
  have eq: "threshold_size quality = 1 + (quality ^ 3 * 99 + 500000) div 10 ^ 6"
    using nonneg by (simp add: threshold_size_def MAX_HISTO_GREEDY_def cube DivRound_nonneg)
  have "(quality ^ 3 * 99 + 500000) div 10 ^ 6 \<le> 99" using le by simp
  moreover have "0 \<le> (quality ^ 3 * 99 + 500000) div 10 ^ 6"
    using nonneg by (intro pos_imp_zdiv_nonneg_iff [THEN iffD2]) simp_all
  ultimately show ?thesis using eq by simp
qed

text \<open>The threshold at the qualities 100, 0 and 50.\<close>

theorem threshold_size_ramp_witness:
  "threshold_size 100 = 100 \<and> threshold_size 0 = 1 \<and> threshold_size 50 = 13"
  using threshold_size_ramp [of 100] threshold_size_ramp [of 0] threshold_size_ramp [of 50]
  by simp

subsection \<open>The final remap\<close>

text \<open>The conversions are the identity on the values of their type.\<close>

lemma u64_id: "0 \<le> x \<Longrightarrow> x < 2 ^ 64 \<Longrightarrow> u64 x = x"
  by (simp add: u64_def)

lemma u64_range: "0 \<le> u64 x" "u64 x < 2 ^ 64"
  by (simp_all add: u64_def)

lemma s64_id: "- (2 ^ 63) \<le> x \<Longrightarrow> x < 2 ^ 63 \<Longrightarrow> s64 x = x"
  by (simp add: s64_def)

lemma FinalHuffmanCost_nonneg: "0 \<le> FinalHuffmanCost stats"
  by (simp add: FinalHuffmanCost_def Let_def u64_range)

lemma GetCombinedEntropy_nonneg: "0 \<le> GetCombinedEntropy d a b i t"
  by (simp add: GetCombinedEntropy_def Let_def split_beta u64_range FinalHuffmanCost_nonneg)

text \<open>Without wrap-around the loop compares the whole sum with the threshold.\<close>

lemma combined_loop_sum:
  assumes "0 \<le> cost" "cost < thr"
    and "cost + (\<Sum>i\<leftarrow>ks. GetCombinedEntropy d a b i (if i \<le> 3 then t else False)) < 2 ^ 64"
  shows "combined_loop d a b t thr ks cost =
           (let total = cost + (\<Sum>i\<leftarrow>ks. GetCombinedEntropy d a b i (if i \<le> 3 then t else False))
            in if total < thr then Some total else None)"
  using assms
proof (induction ks arbitrary: cost)
  case Nil
  then show ?case by simp
next
  case (Cons i rest)
  let ?g = "\<lambda>i. GetCombinedEntropy d a b i (if i \<le> 3 then t else False)"
  have g: "0 \<le> ?g i" by (rule GetCombinedEntropy_nonneg)
  have rest: "0 \<le> (\<Sum>i\<leftarrow>rest. ?g i)"
    by (intro sum_list_nonneg) (auto simp add: GetCombinedEntropy_nonneg)
  have c1: "u64 (cost + ?g i) = cost + ?g i"
    using Cons.prems g rest by (intro u64_id) simp_all
  show ?case
  proof (cases "cost + ?g i < thr")
    case True
    have "combined_loop d a b t thr rest (cost + ?g i) =
            (let total = cost + ?g i + (\<Sum>i\<leftarrow>rest. ?g i)
             in if total < thr then Some total else None)"
      using Cons.prems g True by (intro Cons.IH) (simp_all add: add.assoc)
    with True show ?thesis by (simp add: c1 Let_def add.assoc)
  next
    case False
    with rest have "\<not> cost + ?g i + (\<Sum>i\<leftarrow>rest. ?g i) < thr" by simp
    with False show ?thesis by (simp add: c1 Let_def add.assoc)
  qed
qed

lemma combined_cost_nonneg: "0 \<le> combined_cost d a b"
  by (simp add: combined_cost_def GetCombinedEntropy_nonneg)

lemma GetCombinedHistogramEntropy_alt:
  "GetCombinedHistogramEntropy d a b thr =
     (if thr \<le> 0 then None
      else if GetCombinedEntropy d a b 0 False \<ge> u64 thr then None
      else combined_loop d a b (trivial_at_end_of a b) (u64 thr) [1, 2, 3, 4]
             (GetCombinedEntropy d a b 0 False))"
  by (simp add: GetCombinedHistogramEntropy_def trivial_at_end_of_def Let_def
      del: combined_loop.simps)

lemma GetCombinedHistogramEntropy_total:
  assumes "combined_cost d a b < 2 ^ 64" "thr < 2 ^ 64"
  shows "GetCombinedHistogramEntropy d a b thr =
           (if combined_cost d a b < thr then Some (combined_cost d a b) else None)"
proof (cases "thr \<le> 0")
  case True
  with combined_cost_nonneg [of d a b] show ?thesis
    by (simp add: GetCombinedHistogramEntropy_def Let_def)
next
  case False
  then have thr: "u64 thr = thr" using assms(2) by (simp add: u64_id)
  let ?t = "trivial_at_end_of a b"
  let ?c0 = "GetCombinedEntropy d a b 0 False"
  have total: "?c0 + (\<Sum>i\<leftarrow>[1, 2, 3, 4]. GetCombinedEntropy d a b i (if i \<le> 3 then ?t else False))
                 = combined_cost d a b"
    by (simp add: combined_cost_def)
  have rest: "0 \<le> (\<Sum>i\<leftarrow>[1, 2, 3, 4]. GetCombinedEntropy d a b i (if i \<le> 3 then ?t else False))"
    by (intro sum_list_nonneg) (auto simp add: GetCombinedEntropy_nonneg)
  show ?thesis
  proof (cases "?c0 < thr")
    case True
    have "combined_loop d a b ?t thr [1, 2, 3, 4] ?c0 =
            (if combined_cost d a b < thr then Some (combined_cost d a b) else None)"
      using combined_loop_sum [where cost = ?c0 and thr = thr and ks = "[1, 2, 3, 4]" and d = d
          and a = a and b = b and t = ?t] True assms(1)
        GetCombinedEntropy_nonneg [of d a b 0 False]
      unfolding total Let_def by (simp del: combined_loop.simps)
    with True False show ?thesis
      unfolding GetCombinedHistogramEntropy_alt thr by (simp del: combined_loop.simps)
  next
    case c0: False
    with rest total have "\<not> combined_cost d a b < thr" by linarith
    with c0 False show ?thesis
      unfolding GetCombinedHistogramEntropy_alt thr by (simp del: combined_loop.simps)
  qed
qed


lemma SaturateAdd_exact:
  assumes "0 \<le> a" "a < 2 ^ 62" "- (2 ^ 63) \<le> b" "b \<le> WEBP_INT64_MAX"
  shows "SaturateAdd a b = (if a + b \<le> WEBP_INT64_MAX then a + b else WEBP_INT64_MAX)"
proof -
  have a: "s64 a = a" using assms by (intro s64_id) simp_all
  show ?thesis
  proof (cases "a + b \<le> WEBP_INT64_MAX")
    case True
    then have "s64 (b + a) = b + a"
      using assms by (intro s64_id) (simp_all add: WEBP_INT64_MAX_def)
    with True show ?thesis by (auto simp add: SaturateAdd_def a)
  next
    case False
    with assms have "\<not> b < 0" by (simp add: WEBP_INT64_MAX_def)
    with False show ?thesis by (auto simp add: SaturateAdd_def a)
  qed
qed











lemma histo_at_update:
  "histo_at (hs[j := x]) k = (if k = j \<and> j < length hs then x else histo_at hs k)"
  by (simp add: histo_at_def nth_list_update)















subsection \<open>The entropy-bin pre-pass\<close>

text \<open>
  With costs in range the evaluation of a merge compares the exact combined cost with
  the exact threshold.
\<close>

lemma HistogramAddEval_exact:
  assumes "combined_cost d a b < 2 ^ 62"
    and "0 \<le> bit_cost a" "bit_cost a < 2 ^ 61" "0 \<le> bit_cost b" "bit_cost b < 2 ^ 61"
    and "- (2 ^ 63) \<le> thr" "thr \<le> 0"
  shows "HistogramAddEval d a b out thr =
           (if combined_cost d a b < bit_cost a + bit_cost b + thr
            then Some ((HistogramAdd a b out)
                        \<lparr>bit_cost := combined_cost d a b,
                         palette_code_bits := palette_code_bits a\<rparr>)
            else None)"
proof -
  let ?s = "bit_cost a + bit_cost b"
  have s: "u64 ?s = ?s" using assms(2-5) by (intro u64_id) simp_all
  have "SaturateAdd ?s thr = (if ?s + thr \<le> WEBP_INT64_MAX then ?s + thr else WEBP_INT64_MAX)"
    using assms(2-7) by (intro SaturateAdd_exact) (simp_all add: WEBP_INT64_MAX_def)
  moreover have "?s + thr \<le> WEBP_INT64_MAX"
    using assms(2-7) by (simp add: WEBP_INT64_MAX_def)
  ultimately have t: "SaturateAdd ?s thr = ?s + thr" by simp
  have "GetCombinedHistogramEntropy d a b (?s + thr) =
          (if combined_cost d a b < ?s + thr then Some (combined_cost d a b) else None)"
    using assms by (intro GetCombinedHistogramEntropy_total) simp_all
  then show ?thesis
    by (simp add: HistogramAddEval_def Let_def s t)
qed

lemma trivial_symbol_HistogramAdd:
  "trivial_symbol (HistogramAdd a b out) =
     (if trivial_symbol a = trivial_symbol b then trivial_symbol a else VP8L_NON_TRIVIAL_SYM)"
  by (simp add: HistogramAdd_def VP8LHistogramAdd_def)

lemma bit_cost_thresh_exact:
  assumes "0 \<le> c" "c < 2 ^ 56" "0 \<le> f" "f \<le> 100"
  shows "- DivRound (s64 (s64 c * f)) 100 = - ((c * f + 50) div 100)"
    and "- (2 ^ 63) \<le> - ((c * f + 50) div 100)" and "- ((c * f + 50) div 100) \<le> 0"
proof -
  have c: "s64 c = c" using assms by (intro s64_id) simp_all
  have "c * f \<le> c * 100" using assms by (intro mult_left_mono) simp_all
  then have lt: "c * f < 2 ^ 63" using assms(2) by simp
  have nn: "0 \<le> c * f" using assms by simp
  then have cf: "s64 (c * f) = c * f" using lt by (intro s64_id) simp_all
  show "- DivRound (s64 (s64 c * f)) 100 = - ((c * f + 50) div 100)"
    using nn by (simp add: c cf DivRound_nonneg)
  have "0 \<le> (c * f + 50) div 100"
    using nn by (intro pos_imp_zdiv_nonneg_iff [THEN iffD2]) simp_all
  then show "- ((c * f + 50) div 100) \<le> 0" by simp
  have "(c * f + 50) div 100 \<le> c * f + 50"
    using nn by (intro int_div_le_self) simp
  with lt show "- (2 ^ 63) \<le> - ((c * f + 50) div 100)" by simp
qed


lemma histo_at_int_nat: "histo_at_int hs (int f) = histo_at hs f"
  by (simp add: histo_at_int_def)

text \<open>The step for a tile whose bin has a first tile already, not in low-effort mode.\<close>

text \<open>
  One candidate of the pre-pass, not in low-effort mode: tile \<open>idx\<close> meets the first tile
  \<open>f\<close> of its bin.
\<close>

lemma bin_step_exact:
  assumes tile: "histo_at (histograms (eb_image_histo st)) idx = Some t"
    and bin: "bin_id t < num_bins"
    and first: "eb_first st (bin_id t) = int f"
    and firsth: "histo_at (histograms (eb_image_histo st)) f = Some a"
    and factor: "0 \<le> factor" "factor \<le> 100"
    and range: "combined_cost d a t < 2 ^ 56" "0 \<le> bit_cost a" "bit_cost a < 2 ^ 56"
      "0 \<le> bit_cost t" "bit_cost t < 2 ^ 56"
  shows "bin_step d num_bins factor False idx st =
     Some (let combo = (HistogramAdd a t (eb_cur_combo st))
                         \<lparr>bit_cost := combined_cost d a t,
                          palette_code_bits := palette_code_bits a\<rparr>;
               passes = (combined_cost d a t <
                           bit_cost a + bit_cost t - (bit_cost t * factor + 50) div 100);
               may_combine = (trivial_symbol a = trivial_symbol t \<or>
                       32 \<le> eb_num_combine_failures st (bin_id t))
           in if passes \<and> may_combine then
                st\<lparr>eb_image_histo :=
                     fst (HistogramSetRemoveHistogram
                            ((eb_image_histo st)
                               \<lparr>histograms :=
                                  (histograms (eb_image_histo st))[f := Some combo]\<rparr>)
                            idx (eb_num_used st)),
                   eb_num_used := eb_num_used st - 1,
                   eb_cur_combo := a\<rparr>
              else if passes then
                st\<lparr>eb_cur_combo := combo,
                   eb_num_combine_failures :=
                     (eb_num_combine_failures st)
                       (bin_id t := Suc (eb_num_combine_failures st (bin_id t)))\<rparr>
              else st)"
proof -
  let ?thr = "- ((bit_cost t * factor + 50) div 100)"
  note th = bit_cost_thresh_exact [OF range(4,5) factor]
  have eval: "HistogramAddEval d a t (eb_cur_combo st) ?thr =
          (if combined_cost d a t < bit_cost a + bit_cost t + ?thr
           then Some ((HistogramAdd a t (eb_cur_combo st))
                        \<lparr>bit_cost := combined_cost d a t,
                         palette_code_bits := palette_code_bits a\<rparr>)
           else None)"
    using range th(2,3) by (intro HistogramAddEval_exact) simp_all
  have rm: "snd (HistogramSetRemoveHistogram s i n) = n - 1" for s i n
    by (simp add: HistogramSetRemoveHistogram_def Let_def)
  have first_ne: "int f \<noteq> - 1" by simp
  have thr: "DivRound (s64 (s64 (bit_cost t) * factor)) 100 = (bit_cost t * factor + 50) div 100"
    using th(1) by simp
  show ?thesis
    using bin
    by (auto simp add: bin_step_def Let_def tile first histo_at_int_nat firsth thr eval
        trivial_symbol_HistogramAdd split_beta rm)
qed

text \<open>Combined costs of the example tiles, and three runs of the pre-pass.\<close>

lemma ex_costs:
  "combined_cost dsp_example (example_tile 255 0 5 0 0xff000000 3000000000)
     (example_tile 255 0 5 7 0xff000007 3000000000) = 4213702655"
  "combined_cost dsp_example (example_tile 255 0 5 0 0xff000000 3000000000)
     (example_tile 255 0 5 0 0xff000000 3000000000) = 4290379775"
  "combined_cost dsp_example (example_tile 255 0 5 0 0xff000000 2009071615)
     (example_tile 255 0 5 0 0xff000000 2009071615) = 4290379775"
  "combined_cost dsp_example (example_tile 255 0 5 0 0xffffffff 4213702655)
     (example_tile 255 0 5 0 0xffffffff 0) = 4213702655"
  by code_simp+

lemma ex_run2:
  "map_option (\<lambda>(s, n, c). (live_count s, n)) (HistogramCombineEntropyBin dsp_example
   \<lparr>histograms = [Some (example_tile 255 0 5 0 0xff000000 3000000000),
                    Some (example_tile 255 0 5 7 0xff000007 3000000000)],
      set_size = 2, set_max_size = 2\<rparr> 2 (cleared_histogram 0) 64 16 False) = Some ((2, 2), 2)"
  by code_simp


lemma bin_loop_unchanged:
  assumes "\<And>i. idx \<le> i \<Longrightarrow> i < set_size (eb_image_histo st) \<Longrightarrow>
             bin_step d nb f le i st = Some st"
  shows "bin_loop d nb f le idx st = Some st"
  using assms
proof (induction "set_size (eb_image_histo st) - idx" arbitrary: idx)
  case 0
  then show ?case by (simp add: bin_loop.simps)
next
  case (Suc k)
  then have idx: "idx < set_size (eb_image_histo st)" by simp
  have "bin_loop d nb f le (Suc idx) st = Some st"
    using Suc.hyps(2) Suc.prems by (intro Suc.hyps(1)) simp_all
  with idx Suc.prems [of idx] show ?case
    by (subst bin_loop.simps) simp
qed

lemma first_step:
  assumes "histo_at (histograms s) 0 = Some t" "bin_id t = 0" "0 < nb"
  shows "bin_step d nb f le 0
           \<lparr>eb_image_histo = s, eb_num_used = n, eb_cur_combo = c, eb_first = (\<lambda>_. - 1),
            eb_num_combine_failures = (\<lambda>_. 0)\<rparr> =
         Some (\<lparr>eb_image_histo = s, eb_num_used = n, eb_cur_combo = c,
                eb_first = (\<lambda>_. - 1)(0 := 0), eb_num_combine_failures = (\<lambda>_. 0)\<rparr>)"
  using assms by (simp add: bin_step_def Let_def s16_def)

lemma ex_run34:
  "map_option (\<lambda>(s, n, c). (live_count s, n)) (HistogramCombineEntropyBin dsp_example
     (tiles_of 34 (example_tile 255 0 5 0 0xff000000 2009071615)) 34 (cleared_histogram 0)
     64 16 False) = Some ((34, 34), 34)"
proof -
  let ?t = "example_tile 255 0 5 0 0xff000000 2009071615"
  let ?s = "tiles_of 34 ?t"
  let ?st0 = "\<lparr>eb_image_histo = ?s, eb_num_used = 34, eb_cur_combo = cleared_histogram 0,
               eb_first = (\<lambda>_. - 1), eb_num_combine_failures = (\<lambda>_. 0)\<rparr>"
  let ?st1 = "bin_state_after_first ?s 34"
  have t: "bin_id ?t = 0" "bit_cost ?t = 2009071615"
    by (simp_all add: example_tile_def pixel_histogram_def)
  have at: "histo_at (histograms ?s) i = Some ?t" if "i < 34" for i
    using that by (simp add: tiles_of_def histo_at_def)
  have size: "set_size ?s = 34" by (simp add: tiles_of_def)
  have step0: "bin_step dsp_example 64 16 False 0 ?st0 = Some ?st1"
    unfolding bin_state_after_first_def
    by (rule first_step [where t = ?t]) (simp_all add: at t)
  have step: "bin_step dsp_example 64 16 False i ?st1 = Some ?st1" if "1 \<le> i" "i < 34" for i
  proof -
    have "bin_step dsp_example 64 16 False i ?st1 = Some (let combo =
             (HistogramAdd ?t ?t (eb_cur_combo ?st1))
               \<lparr>bit_cost := combined_cost dsp_example ?t ?t,
                palette_code_bits := palette_code_bits ?t\<rparr>;
           passes = (combined_cost dsp_example ?t ?t <
                       bit_cost ?t + bit_cost ?t - (bit_cost ?t * 16 + 50) div 100);
           may_combine = (trivial_symbol ?t = trivial_symbol ?t \<or>
                   32 \<le> eb_num_combine_failures ?st1 (bin_id ?t))
       in if passes \<and> may_combine then
            ?st1\<lparr>eb_image_histo :=
                 fst (HistogramSetRemoveHistogram
                        ((eb_image_histo ?st1)
                           \<lparr>histograms :=
                              (histograms (eb_image_histo ?st1))[0 := Some combo]\<rparr>)
                        i (eb_num_used ?st1)),
               eb_num_used := eb_num_used ?st1 - 1,
               eb_cur_combo := ?t\<rparr>
          else if passes then
            ?st1\<lparr>eb_cur_combo := combo,
               eb_num_combine_failures :=
                 (eb_num_combine_failures ?st1)
                   (bin_id ?t := Suc (eb_num_combine_failures ?st1 (bin_id ?t)))\<rparr>
          else ?st1)"
      using that
      by (intro bin_step_exact)
         (simp_all add: bin_state_after_first_def at t ex_costs)
    then show ?thesis
      by (simp add: Let_def ex_costs t)
  qed
  have "bin_loop dsp_example 64 16 False (Suc 0) ?st1 = Some ?st1"
    by (rule bin_loop_unchanged, rule step) (simp_all add: bin_state_after_first_def size)
  then have "bin_loop dsp_example 64 16 False 0 ?st0 = Some ?st1"
    by (subst bin_loop.simps) (simp add: step0 size)
  then show ?thesis
    by (simp add: HistogramCombineEntropyBin_def bin_state_after_first_def live_count_def
        tiles_of_def)
qed

lemma ex_run_eq:
  "map_option (\<lambda>(s, n, c). (live_count s, n)) (HistogramCombineEntropyBin dsp_example
   \<lparr>histograms = [Some (example_tile 255 0 5 0 0xffffffff 4213702655),
                    Some (example_tile 255 0 5 0 0xffffffff 0)],
      set_size = 2, set_max_size = 2\<rparr> 2 (cleared_histogram 0) 64 16 False) = Some ((2, 2), 2)"
  by code_simp


text \<open>
  Three runs against the acceptance rule of the specification (combined cost at most
  the threshold, a merge forced after 32 consecutive rejections). Two tiles with
  different trivial symbols: the combined cost 4213702655 is below the threshold
  5520000000, and both tiles are left. 34 equal tiles: the combined cost 4290379775
  is above the threshold 3696691772, the 33 candidates are rejected and none is
  forced. Two tiles whose combined cost equals the threshold 4213702655: both are
  left.
\<close>

theorem entropy_bin_claim_counterexample:
  "combined_cost dsp_example (example_tile 255 0 5 0 0xff000000 3000000000)
     (example_tile 255 0 5 7 0xff000007 3000000000) = 4213702655 \<and>
   (3000000000 + 3000000000 - (3000000000 * 16) div 100 :: int) = 5520000000 \<and>
   map_option (\<lambda>(s, n, c). (live_count s, n))
     (HistogramCombineEntropyBin dsp_example
        \<lparr>histograms = [Some (example_tile 255 0 5 0 0xff000000 3000000000),
                        Some (example_tile 255 0 5 7 0xff000007 3000000000)],
         set_size = 2, set_max_size = 2\<rparr> 2 (cleared_histogram 0) 64 16 False)
     = Some ((2, 2), 2) \<and>
   combined_cost dsp_example (example_tile 255 0 5 0 0xff000000 2009071615)
     (example_tile 255 0 5 0 0xff000000 2009071615) = 4290379775 \<and>
   (2009071615 + 2009071615 - (2009071615 * 16) div 100 :: int) = 3696691772 \<and>
   map_option (\<lambda>(s, n, c). (live_count s, n))
     (HistogramCombineEntropyBin dsp_example
        (tiles_of 34 (example_tile 255 0 5 0 0xff000000 2009071615)) 34 (cleared_histogram 0)
        64 16 False)
     = Some ((34, 34), 34) \<and>
   combined_cost dsp_example (example_tile 255 0 5 0 0xffffffff 4213702655)
     (example_tile 255 0 5 0 0xffffffff 0) = 4213702655 \<and>
   (4213702655 + 0 - (0 * 16) div 100 :: int) = 4213702655 \<and>
   map_option (\<lambda>(s, n, c). (live_count s, n))
     (HistogramCombineEntropyBin dsp_example
        \<lparr>histograms = [Some (example_tile 255 0 5 0 0xffffffff 4213702655),
                        Some (example_tile 255 0 5 0 0xffffffff 0)],
         set_size = 2, set_max_size = 2\<rparr> 2 (cleared_histogram 0) 64 16 False)
     = Some ((2, 2), 2)"
  by (simp only: ex_costs ex_run2 ex_run34 ex_run_eq) simp

text \<open>
  Claim C4, amended. In the non-low-effort entropy-bin pre-pass, for a tile \<open>t\<close> at
  \<open>idx\<close> that meets the first tile \<open>a\<close> at \<open>f\<close> of its bin, with costs in the range
  where the 64-bit arithmetic is exact: the tile is folded into the first tile exactly
  when the combined cost is strictly below
  \<open>a.bit_cost + t.bit_cost - round (t.bit_cost * combine_cost_factor / 100)\<close> and, besides,
  the two tiles have the same trivial symbol or the bin has counted 32 failures. A
  failure is counted each time the cost test passes and the merge is not made; a tile
  that fails the cost test is left alone, is not counted, and is never forced.
\<close>

theorem entropy_bin_merge_rule:
  assumes tile: "histo_at (histograms (eb_image_histo st)) idx = Some t"
    and bin: "bin_id t < num_bins"
    and first: "eb_first st (bin_id t) = int f"
    and firsth: "histo_at (histograms (eb_image_histo st)) f = Some a"
    and later: "f \<noteq> idx"
    and factor: "0 \<le> factor" "factor \<le> 100"
    and range: "combined_cost d a t < 2 ^ 56" "0 \<le> bit_cost a" "bit_cost a < 2 ^ 56"
      "0 \<le> bit_cost t" "bit_cost t < 2 ^ 56"
  shows "\<exists>st1. bin_step d num_bins factor False idx st = Some st1 \<and>
     (let passes = (combined_cost d a t <
                      bit_cost a + bit_cost t - (bit_cost t * factor + 50) div 100);
          may_combine = (trivial_symbol a = trivial_symbol t \<or>
                  32 \<le> eb_num_combine_failures st (bin_id t))
      in (histo_at (histograms (eb_image_histo st1)) idx = None \<longleftrightarrow> passes \<and> may_combine) \<and>
         (passes \<and> may_combine \<longrightarrow>
            histo_at (histograms (eb_image_histo st1)) f =
              Some ((HistogramAdd a t (eb_cur_combo st))
                      \<lparr>bit_cost := combined_cost d a t,
                       palette_code_bits := palette_code_bits a\<rparr>) \<and>
            eb_num_used st1 = eb_num_used st - 1) \<and>
         (\<not> (passes \<and> may_combine) \<longrightarrow>
            eb_image_histo st1 = eb_image_histo st \<and> eb_num_used st1 = eb_num_used st) \<and>
         eb_num_combine_failures st1 (bin_id t) =
           (if passes \<and> \<not> may_combine then Suc (eb_num_combine_failures st (bin_id t))
            else eb_num_combine_failures st (bin_id t)))"
proof -
  have f: "f < length (histograms (eb_image_histo st))"
    using firsth by (simp add: histo_at_def split: if_splits)
  have rm: "histograms (fst (HistogramSetRemoveHistogram s idx n)) = (histograms s)[idx := None]"
    for s n
    by (simp add: HistogramSetRemoveHistogram_def Let_def)
  have i: "idx < length (histograms (eb_image_histo st))"
    using tile by (simp add: histo_at_def split: if_splits)
  have gone: "histo_at ((histograms (eb_image_histo st))[f := c, idx := None]) idx = None"
    for c using i by (simp add: histo_at_update)
  have kept: "histo_at ((histograms (eb_image_histo st))[f := Some c, idx := None]) f = Some c"
    for c using f later by (simp add: histo_at_update)
  show ?thesis
    unfolding bin_step_exact [OF tile bin first firsth factor range]
    by (auto simp add: Let_def rm gone kept tile)
qed

text \<open>
  Two equal tiles: the combined cost 4290379775 is below the threshold 5520000000,
  the second tile is folded into the first.
\<close>

theorem entropy_bin_merge_rule_witness:
  "\<exists>st1. bin_step dsp_example 64 16 False 1
            (bin_state_after_first
               (tiles_of 2 (example_tile 255 0 5 0 0xff000000 3000000000)) 2) = Some st1 \<and>
      histo_at (histograms (eb_image_histo st1)) 1 = None \<and>
      map_option bit_cost (histo_at (histograms (eb_image_histo st1)) 0) = Some 4290379775 \<and>
      eb_num_used st1 = 1 \<and>
      eb_num_combine_failures st1 0 = 0"
proof -
  let ?t = "example_tile 255 0 5 0 0xff000000 3000000000"
  let ?s = "tiles_of 2 ?t"
  let ?st = "bin_state_after_first ?s 2"
  have t: "bin_id ?t = 0" "bit_cost ?t = 3000000000"
    by (simp_all add: example_tile_def pixel_histogram_def)
  have tile: "histo_at (histograms (eb_image_histo ?st)) 1 = Some ?t"
    by (simp add: bin_state_after_first_def tiles_of_def histo_at_def numeral_2_eq_2)
  have firsth: "histo_at (histograms (eb_image_histo ?st)) 0 = Some ?t"
    by (simp add: bin_state_after_first_def tiles_of_def histo_at_def)
  have bin: "bin_id ?t < 64" by (simp add: t)
  have first: "eb_first ?st (bin_id ?t) = int 0"
    by (simp add: bin_state_after_first_def t)
  have fails: "eb_num_combine_failures ?st 0 = 0" "eb_num_used ?st = 2"
    by (simp_all add: bin_state_after_first_def)
  have cost: "combined_cost dsp_example ?t ?t = 4290379775" by (rule ex_costs)
  from entropy_bin_merge_rule [of ?st 1 ?t 64 0 ?t 16 dsp_example, OF tile bin first firsth]
  obtain st1 where
    "bin_step dsp_example 64 16 False 1 ?st = Some st1"
    "histo_at (histograms (eb_image_histo st1)) 1 = None"
    "histo_at (histograms (eb_image_histo st1)) 0 =
       Some ((HistogramAdd ?t ?t (eb_cur_combo ?st))
               \<lparr>bit_cost := 4290379775, palette_code_bits := palette_code_bits ?t\<rparr>)"
    "eb_num_used st1 = 1"
    "eb_num_combine_failures st1 0 = 0"
    unfolding Let_def cost t fails by auto
  then show ?thesis by auto
qed


subsection \<open>The order of the indices in the queue\<close>

lemma steps_invariant:
  assumes "P c0" and "\<And>c c1. P c \<Longrightarrow> f c = Some c1 \<Longrightarrow> P c1"
    and "steps f k c0 = Some c"
  shows "P c"
  using assms(1,3)
proof (induction k arbitrary: c0)
  case 0
  then show ?case by simp
next
  case (Suc k)
  then show ?case using assms(2) by (auto split: option.splits)
qed

lemma idx_HistoQueueUpdatePair:
  "HistoQueueUpdatePair d h1 h2 t p = Some p1 \<Longrightarrow> idx1 p1 = idx1 p \<and> idx2 p1 = idx2 p"
  by (auto simp add: HistoQueueUpdatePair_def Let_def split: option.splits)

lemma queue_ordered_PopPair:
  assumes "queue_ordered hq"
  shows "queue_ordered (HistoQueuePopPair hq k)"
proof (cases "queue hq = []")
  case True
  then show ?thesis by (simp add: queue_ordered_def HistoQueuePopPair_def)
next
  case False
  then have "last (queue hq) \<in> set (queue hq)" by simp
  moreover have "set (butlast ((queue hq)[k := last (queue hq)])) \<subseteq>
      insert (last (queue hq)) (set (queue hq))"
    using set_update_subset_insert [of "queue hq" k "last (queue hq)"]
    by (auto dest: in_set_butlastD)
  ultimately show ?thesis
    using assms by (auto simp add: queue_ordered_def HistoQueuePopPair_def)
qed

lemma queue_ordered_UpdateHead:
  assumes "queue_ordered hq" "k < length (queue hq)"
  shows "queue_ordered (HistoQueueUpdateHead hq k)"
proof -
  let ?q = "queue hq"
  have 0: "?q ! 0 \<in> set ?q" and k: "?q ! k \<in> set ?q"
    using assms(2) by (auto intro: nth_mem)
  have "set (?q[0 := ?q ! k, k := ?q ! 0]) \<subseteq> set ?q"
  proof
    fix x assume "x \<in> set (?q[0 := ?q ! k, k := ?q ! 0])"
    then have "x = ?q ! 0 \<or> x \<in> set (?q[0 := ?q ! k])"
      using set_update_subset_insert [of "?q[0 := ?q ! k]" k "?q ! 0"] by auto
    then have "x = ?q ! 0 \<or> x = ?q ! k \<or> x \<in> set ?q"
      using set_update_subset_insert [of ?q 0 "?q ! k"] by auto
    then show "x \<in> set ?q" using 0 k by auto
  qed
  then show ?thesis
    using assms(1) by (auto simp add: queue_ordered_def HistoQueueUpdateHead_def Let_def)
qed

lemma queue_ordered_append:
  "queue_ordered hq \<Longrightarrow> idx1 p < idx2 p \<Longrightarrow> queue_ordered (hq\<lparr>queue := queue hq @ [p]\<rparr>)"
  by (auto simp add: queue_ordered_def)

lemma queue_ordered_update:
  assumes "queue_ordered hq" "idx1 p < idx2 p"
  shows "queue_ordered (hq\<lparr>queue := (queue hq)[k := p]\<rparr>)"
  using assms set_update_subset_insert [of "queue hq" k p]
  by (auto simp add: queue_ordered_def)

lemma queue_ordered_Push:
  assumes "queue_ordered hq" "i1 \<noteq> i2"
    and "HistoQueuePush d hq hs i1 i2 threshold = Some (hq1, cost)"
  shows "queue_ordered hq1"
proof (cases "int (length (queue hq)) = max_size hq")
  case True
  then show ?thesis using assms by (simp add: HistoQueuePush_def)
next
  case False
  define j1 where "j1 = (if i1 > i2 then i2 else i1)"
  define j2 where "j2 = (if i1 > i2 then i1 else i2)"
  have lt: "j1 < j2" using assms(2) by (simp add: j1_def j2_def)
  have sw: "(if i1 > i2 then (i2, i1) else (i1, i2)) = (j1, j2)"
    by (simp add: j1_def j2_def)
  from assms(3) False obtain h1 h2 where
    h: "histo_at_int hs j1 = Some h1" "histo_at_int hs j2 = Some h2"
    by (auto simp add: HistoQueuePush_def sw split: option.splits)
  show ?thesis
  proof (cases "HistoQueueUpdatePair d h1 h2 threshold
                  \<lparr>idx1 = j1, idx2 = j2, cost_diff = 0, cost_combo = 0\<rparr>")
    case None
    then show ?thesis using assms False h by (simp add: HistoQueuePush_def sw)
  next
    case (Some pair)
    from idx_HistoQueueUpdatePair [OF Some] lt have "idx1 pair < idx2 pair" by simp
    then have "queue_ordered (hq\<lparr>queue := queue hq @ [pair]\<rparr>)"
      using assms(1) by (rule queue_ordered_append [rotated])
    then have "queue_ordered (HistoQueueUpdateHead (hq\<lparr>queue := queue hq @ [pair]\<rparr>)
                                (length (queue hq)))"
      by (rule queue_ordered_UpdateHead) simp
    then show ?thesis using assms(3) False h Some by (simp add: HistoQueuePush_def sw)
  qed
qed

text \<open>The greedy clusterer: in the inner loop that fills the queue, \<open>i < j\<close>.\<close>

definition greedy_inv :: "greedy_state \<Rightarrow> bool" where
  "greedy_inv c = (queue_ordered (g_histo_queue c) \<and> (g_at c = G_fill_j \<longrightarrow> g_i c < g_j c))"

lemma greedy_inv_init: "greedy_init image_histo num_used = Some c \<Longrightarrow> greedy_inv c"
  by (auto simp add: greedy_init_def greedy_inv_def queue_ordered_def HistoQueueInit_def
      split: if_splits)

lemma greedy_inv_step:
  assumes "greedy_inv c" "greedy_step d c = Some c1"
  shows "greedy_inv c1"
proof (cases "g_at c")
  case G_fill_i
  then show ?thesis using assms
    by (auto simp add: greedy_step_def greedy_inv_def Let_def split: if_splits)
next
  case G_fill_j
  then have ne: "int (g_i c) \<noteq> int (g_j c)" using assms(1) by (simp add: greedy_inv_def)
  from G_fill_j show ?thesis using assms
    by (auto simp add: greedy_step_def greedy_inv_def Let_def
        split: if_splits option.splits dest: queue_ordered_Push [OF _ ne])
next
  case G_while
  then show ?thesis using assms
    by (auto simp add: greedy_step_def greedy_inv_def Let_def split: if_splits option.splits)
next
  case G_remove
  then show ?thesis using assms
    by (auto simp add: greedy_step_def greedy_inv_def Let_def queue_ordered_PopPair
        queue_ordered_UpdateHead split: if_splits)
next
  case G_push
  then show ?thesis using assms
    by (auto simp add: greedy_step_def greedy_inv_def Let_def
        split: if_splits option.splits dest: queue_ordered_Push [rotated 2])
next
  case G_return
  then show ?thesis using assms by (simp add: greedy_step_def Let_def)
qed

lemma greedy_inv_steps:
  assumes "greedy_init image_histo num_used = Some c0" "steps (greedy_step d) k c0 = Some c"
  shows "greedy_inv c"
  using greedy_inv_init [OF assms(1)] greedy_inv_step assms(2)
  by (rule steps_invariant [where P = greedy_inv])

text \<open>
  The stochastic clusterer: \<^verbatim>\<open>mappings\<close> is increasing, so that two different
  positions hold different indices and \<^verbatim>\<open>bsearch\<close> finds an index that occurs.
\<close>

definition stochastic_inv :: "stochastic_state \<Rightarrow> bool" where
  "stochastic_inv c = (queue_ordered (s_histo_queue c) \<and> sorted_wrt (<) (s_mappings c))"

lemma stochastic_inv_init:
  "stochastic_init image_histo num_used min_cluster_size = Some c \<Longrightarrow> stochastic_inv c"
  by (auto simp add: stochastic_init_def stochastic_inv_def queue_ordered_def HistoQueueInit_def
      Let_def sorted_wrt_filter split: if_splits)

lemma sorted_wrt_remove_nth:
  assumes "sorted_wrt (<) (xs :: nat list)"
  shows "sorted_wrt (<) (take m xs @ drop (Suc m) xs)"
proof -
  have "sorted_wrt (<) (take m xs @ drop m xs)" using assms by simp
  then have "sorted_wrt (<) (take m xs)" "sorted_wrt (<) (drop m xs)"
    and cross: "\<forall>x \<in> set (take m xs). \<forall>y \<in> set (drop m xs). x < y"
    unfolding sorted_wrt_append by auto
  moreover have "sorted_wrt (<) (drop (Suc m) xs)" using assms by (rule sorted_wrt_drop)
  moreover have "set (drop (Suc m) xs) \<subseteq> set (drop m xs)"
    by (rule set_drop_subset_set_drop) simp
  ultimately show ?thesis unfolding sorted_wrt_append by auto
qed

lemma sorted_wrt_nth_neq:
  assumes "sorted_wrt (<) (xs :: nat list)" "i < length xs" "k < length xs" "i \<noteq> k"
  shows "int (xs ! i) \<noteq> int (xs ! k)"
proof -
  have "distinct xs" using assms(1) by (simp add: strict_sorted_iff)
  then show ?thesis using assms(2-4) by (simp add: nth_eq_iff_index_eq)
qed

lemma reorder_pair:
  fixes p :: HistogramPair
  assumes "idx1 p < idx2 p"
    and "\<not> ((idx1 p = b1 \<or> idx1 p = b2) \<and> (idx2 p = b1 \<or> idx2 p = b2))"
    and "p1 = (if idx1 p = b1 \<or> idx1 p = b2 then p\<lparr>idx1 := b1\<rparr>
               else if idx2 p = b1 \<or> idx2 p = b2 then p\<lparr>idx2 := b1\<rparr> else p)"
    and "p2 = (if idx1 p1 > idx2 p1 then p1\<lparr>idx1 := idx2 p1, idx2 := idx1 p1\<rparr> else p1)"
  shows "idx1 p2 < idx2 p2"
  using assms by (auto split: if_splits)

lemma stochastic_inv_step:
  assumes "stochastic_inv c" "stochastic_step d min_cluster_size c = Some c1"
  shows "stochastic_inv c1"
proof (cases "s_at c")
  case S_for
  then show ?thesis using assms
    by (auto simp add: stochastic_step_def stochastic_inv_def Let_def split: if_splits)
next
  case S_sample
  show ?thesis
  proof (cases "s_num_used c \<ge> 2 \<and> int (s_j c) < c_div (s_num_used c) 2")
    case False
    with S_sample show ?thesis using assms
      by (auto simp add: stochastic_step_def stochastic_inv_def Let_def)
  next
    case True
    define tmp where "tmp = MyRand (s_seed c) mod u32_of_int ((s_num_used c - 1) * s_num_used c)"
    define pos1 where "pos1 = nat (tmp div (s_num_used c - 1))"
    define pos2 where "pos2 = (if nat (tmp mod (s_num_used c - 1)) \<ge> pos1
                                then nat (tmp mod (s_num_used c - 1)) + 1
                                else nat (tmp mod (s_num_used c - 1)))"
    have ne: "pos1 \<noteq> pos2" by (simp add: pos2_def)
    from assms(2) S_sample True obtain hq1 curr_cost where
      len: "pos1 < length (s_mappings c)" "pos2 < length (s_mappings c)"
      and push: "HistoQueuePush d (s_histo_queue c) (histograms (s_image_histo c))
                   (int (s_mappings c ! pos1)) (int (s_mappings c ! pos2)) (s_best_cost c) =
                 Some (hq1, curr_cost)"
      and c1: "s_histo_queue c1 = hq1" "s_mappings c1 = s_mappings c"
      by (auto simp add: stochastic_step_def Let_def tmp_def pos1_def pos2_def
          split: if_splits option.splits)
    have "int (s_mappings c ! pos1) \<noteq> int (s_mappings c ! pos2)"
      using assms(1) len ne by (intro sorted_wrt_nth_neq) (simp_all add: stochastic_inv_def)
    with assms(1) push have "queue_ordered hq1"
      by (intro queue_ordered_Push [OF _ _ push]) (simp_all add: stochastic_inv_def)
    with c1 assms(1) show ?thesis by (simp add: stochastic_inv_def)
  qed
next
  case S_merge
  then show ?thesis using assms
    by (auto simp add: stochastic_step_def stochastic_inv_def Let_def sorted_wrt_remove_nth
        split: if_splits option.splits)
next
  case S_update
  let ?hq = "s_histo_queue c"
  let ?j = "s_j c"
  have ord: "queue_ordered ?hq" using assms(1) by (simp add: stochastic_inv_def)
  show ?thesis
  proof (cases "?j < length (queue ?hq)")
    case False
    with S_update show ?thesis using assms
      by (auto simp add: stochastic_step_def stochastic_inv_def Let_def)
  next
    case True
    define p where "p = queue ?hq ! ?j"
    define p1 where "p1 = (if idx1 p = s_best_idx1 c \<or> idx1 p = s_best_idx2 c
                            then p\<lparr>idx1 := s_best_idx1 c\<rparr>
                            else if idx2 p = s_best_idx1 c \<or> idx2 p = s_best_idx2 c
                            then p\<lparr>idx2 := s_best_idx1 c\<rparr> else p)"
    define p2 where "p2 = (if idx1 p1 > idx2 p1 then p1\<lparr>idx1 := idx2 p1, idx2 := idx1 p1\<rparr>
                            else p1)"
    have p: "idx1 p < idx2 p" using ord True by (simp add: queue_ordered_def p_def)
    have m: "s_mappings c1 = s_mappings c"
      using assms(2) S_update True
      by (auto simp add: stochastic_step_def Let_def split: if_splits option.splits)
    show ?thesis
    proof (cases "(idx1 p = s_best_idx1 c \<or> idx1 p = s_best_idx2 c) \<and>
                  (idx2 p = s_best_idx1 c \<or> idx2 p = s_best_idx2 c)")
      case both: True
      then have "s_histo_queue c1 = HistoQueuePopPair ?hq ?j"
        using assms(2) S_update True
        by (auto simp add: stochastic_step_def Let_def p_def)
      then show ?thesis using m assms(1) queue_ordered_PopPair [OF ord]
        by (simp add: stochastic_inv_def)
    next
      case notboth: False
      have p2: "idx1 p2 < idx2 p2" using p notboth p1_def p2_def by (rule reorder_pair)
      have upd: "queue_ordered (?hq\<lparr>queue := (queue ?hq)[?j := x]\<rparr>)" if "idx1 x < idx2 x" for x
        using ord that by (rule queue_ordered_update)
      have cases: "s_histo_queue c1 = HistoQueuePopPair (?hq\<lparr>queue := (queue ?hq)[?j := p2]\<rparr>) ?j \<or>
          (\<exists>p3. idx1 p3 = idx1 p2 \<and> idx2 p3 = idx2 p2 \<and>
             s_histo_queue c1 = HistoQueueUpdateHead (?hq\<lparr>queue := (queue ?hq)[?j := p3]\<rparr>) ?j)"
        using assms(2) S_update True notboth
        unfolding stochastic_step_def Let_def p_def [symmetric] p1_def [symmetric]
          p2_def [symmetric]
        by (auto split: if_splits option.splits dest: idx_HistoQueueUpdatePair)
      then have "queue_ordered (s_histo_queue c1)"
      proof
        assume "s_histo_queue c1 =
                  HistoQueuePopPair (?hq\<lparr>queue := (queue ?hq)[?j := p2]\<rparr>) ?j"
        then show ?thesis using queue_ordered_PopPair [OF upd [OF p2]] by simp
      next
        assume "\<exists>p3. idx1 p3 = idx1 p2 \<and> idx2 p3 = idx2 p2 \<and>
             s_histo_queue c1 = HistoQueueUpdateHead (?hq\<lparr>queue := (queue ?hq)[?j := p3]\<rparr>) ?j"
        then obtain p3 where e: "idx1 p3 = idx1 p2" "idx2 p3 = idx2 p2"
          and q: "s_histo_queue c1 =
                    HistoQueueUpdateHead (?hq\<lparr>queue := (queue ?hq)[?j := p3]\<rparr>) ?j"
          by blast
        have p3: "idx1 p3 < idx2 p3" using p2 e by simp
        have "queue_ordered (HistoQueueUpdateHead (?hq\<lparr>queue := (queue ?hq)[?j := p3]\<rparr>) ?j)"
          using upd [OF p3] by (rule queue_ordered_UpdateHead) (simp add: True)
        then show ?thesis using q by simp
      qed
      then show ?thesis using m assms(1) by (simp add: stochastic_inv_def)
    qed
  qed
next
  case S_return
  then show ?thesis using assms by (simp add: stochastic_step_def Let_def)
qed

lemma stochastic_inv_steps:
  assumes "stochastic_init image_histo num_used min_cluster_size = Some c0"
    and "steps (stochastic_step d min_cluster_size) k c0 = Some c"
  shows "stochastic_inv c"
  using stochastic_inv_init [OF assms(1)] stochastic_inv_step assms(2)
  by (rule steps_invariant [where P = stochastic_inv])

text \<open>
  Claim C10. In a run of the stochastic clusterer and in a run of the greedy
  clusterer, after any number of steps, every pair stored in the priority queue has
  \<open>idx1 < idx2\<close>; the head pair in particular, so that the merge keeps the histogram
  of the smaller index. A step goes from one program point to the next: it is one
  call of \<^verbatim>\<open>HistoQueuePush\<close>, which swaps the indices it is given in the wrong order,
  one merge, or the treatment of one pair of the queue after a merge, which re-orders
  a pair whose index was reassigned.
\<close>

theorem queue_pairs_ordered:
  "(stochastic_init image_histo num_used min_cluster_size = Some c0 \<longrightarrow>
      steps (stochastic_step d min_cluster_size) k c0 = Some c \<longrightarrow>
      queue_ordered (s_histo_queue c) \<and>
      (queue (s_histo_queue c) \<noteq> [] \<longrightarrow>
         idx1 (queue (s_histo_queue c) ! 0) < idx2 (queue (s_histo_queue c) ! 0))) \<and>
   (greedy_init image_histo num_used = Some g0 \<longrightarrow>
      steps (greedy_step d) k g0 = Some g \<longrightarrow>
      queue_ordered (g_histo_queue g) \<and>
      (queue (g_histo_queue g) \<noteq> [] \<longrightarrow>
         idx1 (queue (g_histo_queue g) ! 0) < idx2 (queue (g_histo_queue g) ! 0)))"
proof -
  have head: "queue hq \<noteq> [] \<longrightarrow> idx1 (queue hq ! 0) < idx2 (queue hq ! 0)"
    if "queue_ordered hq" for hq
    using that by (auto simp add: queue_ordered_def)
  show ?thesis
    using stochastic_inv_steps [of image_histo num_used min_cluster_size c0 d k c]
      greedy_inv_steps [of image_histo num_used g0 d k g] head
    by (auto simp add: stochastic_inv_def greedy_inv_def simp del: neq0_conv length_greater_0_conv)
qed

text \<open>
  Two runs. The stochastic clusterer on four tiles: the first sample is the pair of
  positions \<open>(2, 1)\<close>, pushed as \<open>(1, 2)\<close>; after the merge of \<open>(0, 2)\<close> the pair
  \<open>(1, 2)\<close> becomes \<open>(1, 0)\<close> and is re-ordered into \<open>(0, 1)\<close>. The greedy clusterer
  on three tiles: after the merge of \<open>(1, 2)\<close> the pair \<open>(1, 0)\<close> is pushed as \<open>(0, 1)\<close>.
\<close>

lemma stochastic_example_run:
  "map_option (\<lambda>c. (s_at c, pairs_of (s_histo_queue c), s_best_idx1 c, s_best_idx2 c))
     (Option.bind
        (stochastic_init
           (tiles_with_costs [3300000000, 3200000000, 3100000000, 3000000000]) 4 1)
        (steps (stochastic_step dsp_example 1) 2)) = Some (S_sample, [(1, 2)], - 1, 1)"
  "map_option (\<lambda>c. (s_at c, pairs_of (s_histo_queue c), s_best_idx1 c, s_best_idx2 c))
     (Option.bind
        (stochastic_init
           (tiles_with_costs [3300000000, 3200000000, 3100000000, 3000000000]) 4 1)
        (steps (stochastic_step dsp_example 1) 7)) = Some (S_update, [(0, 1)], 0, 2)"
  by code_simp+

lemma greedy_example_run:
  "map_option (\<lambda>c. (g_at c, pairs_of (g_histo_queue c), g_idx1 c, g_idx2 c))
     (Option.bind (greedy_init (tiles_with_costs [3000000000, 3100000000, 3200000000]) 3)
        (steps (greedy_step dsp_example) 16)) = Some (G_push, [(0, 1)], 1, 2)"
  by code_simp

theorem queue_pairs_ordered_witness:
  "(\<exists>c0 c. stochastic_init
              (tiles_with_costs [3300000000, 3200000000, 3100000000, 3000000000]) 4 1 = Some c0 \<and>
            steps (stochastic_step dsp_example 1) 7 c0 = Some c \<and>
            pairs_of (s_histo_queue c) = [(0, 1)] \<and> queue_ordered (s_histo_queue c)) \<and>
   (\<exists>g0 g. greedy_init (tiles_with_costs [3000000000, 3100000000, 3200000000]) 3 = Some g0 \<and>
            steps (greedy_step dsp_example) 16 g0 = Some g \<and>
            pairs_of (g_histo_queue g) = [(0, 1)] \<and> queue_ordered (g_histo_queue g))"
proof -
  from stochastic_example_run(2) obtain c0 c where
    s: "stochastic_init
          (tiles_with_costs [3300000000, 3200000000, 3100000000, 3000000000]) 4 1 = Some c0"
       "steps (stochastic_step dsp_example 1) 7 c0 = Some c"
       "pairs_of (s_histo_queue c) = [(0, 1)]"
    by (auto simp add: bind_eq_Some_conv)
  from greedy_example_run obtain g0 g where
    g: "greedy_init (tiles_with_costs [3000000000, 3100000000, 3200000000]) 3 = Some g0"
       "steps (greedy_step dsp_example) 16 g0 = Some g"
       "pairs_of (g_histo_queue g) = [(0, 1)]"
    by (auto simp add: bind_eq_Some_conv)
  from queue_pairs_ordered
         [of "tiles_with_costs [3300000000, 3200000000, 3100000000, 3000000000]" 4 1 c0
             dsp_example 7 c]
       s(1,2)
  have 1: "queue_ordered (s_histo_queue c)" by blast
  from queue_pairs_ordered
         [of "tiles_with_costs [3000000000, 3100000000, 3200000000]" 3 _ _
             dsp_example 16 _ g0 g]
       g(1,2)
  have 2: "queue_ordered (g_histo_queue g)" by blast
  from s g 1 2 show ?thesis by blast
qed


end
